theory Spec2Isabelle
  imports Complex_Main
begin

section \<open>Numeric helpers of the Python runtime\<close>

text \<open>
  Python floats are modelled as real numbers. The functions below are the mathematical
  meaning of \<^verbatim>\<open>math.degrees\<close>, \<^verbatim>\<open>math.radians\<close>, \<^verbatim>\<open>math.atan2\<close>, the float operator
  \<^verbatim>\<open>%\<close> (floored modulo) and \<^verbatim>\<open>int()\<close> (truncation towards zero).
\<close>

datatype py_error = IndexError | ValueError | AttributeError

definition degrees :: "real \<Rightarrow> real" where
  "degrees r = r * 180 / pi"

definition radians :: "real \<Rightarrow> real" where
  "radians d = d * pi / 180"

definition atan2 :: "real \<Rightarrow> real \<Rightarrow> real" where
  "atan2 y x =
     (if 0 < x then arctan (y / x)
      else if x < 0 \<and> 0 \<le> y then arctan (y / x) + pi
      else if x < 0 \<and> y < 0 then arctan (y / x) - pi
      else if 0 < y then pi / 2
      else if y < 0 then - (pi / 2)
      else 0)"

definition py_fmod :: "real \<Rightarrow> real \<Rightarrow> real" where
  "py_fmod a b = a - b * of_int \<lfloor>a / b\<rfloor>"

definition py_int :: "real \<Rightarrow> int" where
  "py_int r = (if 0 \<le> r then \<lfloor>r\<rfloor> else \<lceil>r\<rceil>)"

section \<open>projection.py: primitives\<close>

text \<open>
  The four dataclasses \<^verbatim>\<open>Line2D(x1, y1, x2, y2)\<close>, \<^verbatim>\<open>Circle2D(cx, cy, r)\<close>,
  \<^verbatim>\<open>Arc2D(cx, cy, r, start_deg, sweep_deg, x1, y1, x2, y2)\<close> and
  \<^verbatim>\<open>Polyline2D(points)\<close>, in the field order of the source.
\<close>

datatype edge2d =
    Line2D real real real real
  | Circle2D real real real
  | Arc2D real real real real real real real real real
  | Polyline2D "(real \<times> real) list"

datatype axis = X_axis | Y_axis | Z_axis

record ProfileResult =
  edges :: "edge2d list"
  wires :: "edge2d list list"
  thickness_inches :: real
  extrusion_axis :: axis

fun isLine2D :: "edge2d \<Rightarrow> bool" where
  "isLine2D (Line2D _ _ _ _) = True"
| "isLine2D _ = False"

fun isArc2D :: "edge2d \<Rightarrow> bool" where
  "isArc2D (Arc2D _ _ _ _ _ _ _ _ _) = True"
| "isArc2D _ = False"

fun arc_start_deg :: "edge2d \<Rightarrow> real" where
  "arc_start_deg (Arc2D _ _ _ s _ _ _ _ _) = s"
| "arc_start_deg _ = 0"

fun arc_sweep_deg :: "edge2d \<Rightarrow> real" where
  "arc_sweep_deg (Arc2D _ _ _ _ w _ _ _ _) = w"
| "arc_sweep_deg _ = 0"

section \<open>projection.py: the CAD kernel's objects\<close>

text \<open>
  The kernel objects are used through a few accessors only; each record holds what the
  accessors return. \<open>Value\<close> is the point evaluation \<^verbatim>\<open>adaptor.Value(t)\<close>;
  \<open>normalAt_Center\<close> is \<open>None\<close> where \<^verbatim>\<open>face.normalAt(face.Center())\<close> raises (the source
  catches that and skips the face); a wire is the list \<^verbatim>\<open>wire.Edges()\<close>.
\<close>

datatype curve_type = GeomAbs_Line | GeomAbs_Circle | GeomAbs_Other

type_synonym vec3 = "real \<times> real \<times> real"

record curve =
  GetType :: curve_type
  FirstParameter :: real
  LastParameter :: real
  Value :: "real \<Rightarrow> vec3"
  Circle_Location :: vec3
  Circle_Radius :: real

record face =
  geomType :: string
  normalAt_Center :: "vec3 option"
  face_area :: real
  outerWire :: "curve list"
  innerWires :: "curve list list"

record shape =
  bb_xmin :: real
  bb_xmax :: real
  bb_ymin :: real
  bb_ymax :: real
  bb_zmin :: real
  bb_zmax :: real
  faces :: "face list"

fun AXIS_VECTORS :: "axis \<Rightarrow> vec3" where
  "AXIS_VECTORS X_axis = (1, 0, 0)"
| "AXIS_VECTORS Y_axis = (0, 1, 0)"
| "AXIS_VECTORS Z_axis = (0, 0, 1)"

fun Dot :: "vec3 \<Rightarrow> vec3 \<Rightarrow> real" where
  "Dot (a, b, c) (d, e, f) = a * d + b * e + c * f"

section \<open>projection.py: helpers\<close>

definition normalize_angle :: "real \<Rightarrow> real" where
  "normalize_angle a = (let a1 = py_fmod a 360 in if a1 < 0 then a1 + 360 else a1)"

text \<open>
  \<^verbatim>\<open>_is_rectangle\<close>: all edges are lines, there are four of them, and no adjacent pair
  (cyclically) has a normalised dot product above 0.05 in absolute value.
\<close>

fun line_vec :: "edge2d \<Rightarrow> real \<times> real" where
  "line_vec (Line2D x1 y1 x2 y2) = (x2 - x1, y2 - y1)"
| "line_vec _ = (0, 0)"

definition norm2 :: "real \<times> real \<Rightarrow> real" where
  "norm2 v = sqrt (fst v * fst v + snd v * snd v)"

definition rect_dot :: "edge2d \<Rightarrow> edge2d \<Rightarrow> real" where
  "rect_dot a b =
     (let va = line_vec a; vb = line_vec b
      in (fst va * fst vb + snd va * snd vb) / (norm2 va * norm2 vb + 1 / 10 ^ 12))"

definition is_rectangle :: "edge2d list \<Rightarrow> bool" where
  "is_rectangle edges_2d =
     (let lines = filter isLine2D edges_2d
      in if length lines \<noteq> length edges_2d \<or> length lines \<noteq> 4 then False
         else list_all (\<lambda>i. \<not> \<bar>rect_dot (lines ! i) (lines ! ((i + 1) mod 4))\<bar> > 0.05)
                [0 ..< 4])"

fun drop_axis :: "vec3 \<Rightarrow> axis \<Rightarrow> real \<times> real" where
  "drop_axis (x, y, z) X_axis = (y, z)"
| "drop_axis (x, y, z) Y_axis = (x, z)"
| "drop_axis (x, y, z) Z_axis = (x, y)"

definition scale2 :: "real \<times> real \<Rightarrow> real \<Rightarrow> real \<times> real" where
  "scale2 p s = (fst p * s, snd p * s)"

text \<open>
  One iteration of the loop of \<^verbatim>\<open>_extract_edges_from_wire\<close>: the primitives appended
  for one kernel edge (none for a degenerate edge).
\<close>

definition extract_edge :: "curve \<Rightarrow> axis \<Rightarrow> real \<Rightarrow> edge2d list" where
  "extract_edge e ax scale =
     (let curve_type = GetType e; first = FirstParameter e; last = LastParameter e
      in if \<bar>last - first\<bar> < 1 / 1000 then []
         else if curve_type = GeomAbs_Line then
           (let (u1, v1) = drop_axis (Value e first) ax;
                (u2, v2) = drop_axis (Value e last) ax
            in [Line2D (u1 * scale) (v1 * scale) (u2 * scale) (v2 * scale)])
         else if curve_type = GeomAbs_Circle then
           (let (cx, cy) = scale2 (drop_axis (Circle_Location e) ax) scale;
                r = Circle_Radius e * scale;
                (u1, v1) = scale2 (drop_axis (Value e first) ax) scale;
                (u2, v2) = scale2 (drop_axis (Value e last) ax) scale
            in if \<bar>last - first - 2 * pi\<bar> < 1 / 10 ^ 6 then [Circle2D cx cy r]
               else
                 (let start_rad = atan2 (v1 - cy) (u1 - cx);
                      end_rad = atan2 (v2 - cy) (u2 - cx);
                      (um, vm) = scale2 (drop_axis (Value e ((first + last) / 2)) ax) scale;
                      mid_rad = atan2 (vm - cy) (um - cx);
                      start_deg = degrees start_rad;
                      end_deg = degrees end_rad;
                      mid_deg = degrees mid_rad;
                      ccw0 = normalize_angle (end_deg - start_deg);
                      ccw_sweep = (if ccw0 = 0 then 360 else ccw0);
                      mid_from_start = normalize_angle (mid_deg - start_deg);
                      sweep_deg = (if mid_from_start \<le> ccw_sweep + 0.5 then ccw_sweep
                                   else ccw_sweep - 360)
                  in [Arc2D cx cy r start_deg sweep_deg u1 v1 u2 v2]))
         else
           (let n_points = nat (max 20 (py_int ((last - first) * 50)))
            in [Polyline2D
                  (map (\<lambda>i. scale2 (drop_axis
                                 (Value e (first + (last - first) * real i / real n_points)) ax)
                               scale)
                     [0 ..< n_points + 1])]))"

fun extract_edges_from_wire :: "curve list \<Rightarrow> axis \<Rightarrow> real \<Rightarrow> edge2d list" where
  "extract_edges_from_wire [] ax scale = []"
| "extract_edges_from_wire (e # es) ax scale =
     extract_edge e ax scale @ extract_edges_from_wire es ax scale"

text \<open>
  The angle in degrees, seen from the projected centre, of the projected and scaled curve
  point at parameter \<open>t\<close>: the \<^verbatim>\<open>start_deg\<close>, \<^verbatim>\<open>end_deg\<close> and \<^verbatim>\<open>mid_deg\<close> of the circle branch.
\<close>

definition edge_angle_deg :: "curve \<Rightarrow> real \<Rightarrow> axis \<Rightarrow> real \<Rightarrow> real" where
  "edge_angle_deg e t ax scale =
     (let (cx, cy) = scale2 (drop_axis (Circle_Location e) ax) scale;
          (u, v) = scale2 (drop_axis (Value e t) ax) scale
      in degrees (atan2 (v - cy) (u - cx)))"

section \<open>projection.py: extract_profile\<close>

fun extents :: "shape \<Rightarrow> axis \<Rightarrow> real" where
  "extents sh X_axis = bb_xmax sh - bb_xmin sh"
| "extents sh Y_axis = bb_ymax sh - bb_ymin sh"
| "extents sh Z_axis = bb_zmax sh - bb_zmin sh"

definition axes_sorted :: "shape \<Rightarrow> axis list" where
  "axes_sorted sh = sort_key (extents sh) [X_axis, Y_axis, Z_axis]"

definition candidate_faces :: "shape \<Rightarrow> axis \<Rightarrow> face list" where
  "candidate_faces sh ax =
     filter (\<lambda>f. geomType f = ''PLANE'' \<and>
                 (case normalAt_Center f of
                    None \<Rightarrow> False
                  | Some normal \<Rightarrow> \<bar>Dot normal (AXIS_VECTORS ax)\<bar> > 0.999))
       (faces sh)"

text \<open>\<^verbatim>\<open>max(xs, key=f)\<close> on a non-empty list: the first element of greatest key.\<close>

fun max_key :: "('a \<Rightarrow> real) \<Rightarrow> 'a \<Rightarrow> 'a list \<Rightarrow> 'a" where
  "max_key f best [] = best"
| "max_key f best (x # xs) = max_key f (if f best < f x then x else best) xs"

definition outer_edges_of :: "face \<Rightarrow> axis \<Rightarrow> real \<Rightarrow> edge2d list" where
  "outer_edges_of f ax scale = extract_edges_from_wire (outerWire f) ax scale"

definition inner_wires_edges_of :: "face \<Rightarrow> axis \<Rightarrow> real \<Rightarrow> edge2d list list" where
  "inner_wires_edges_of f ax scale =
     map (\<lambda>iw. extract_edges_from_wire iw ax scale) (innerWires f)"

definition all_edges_of :: "face \<Rightarrow> axis \<Rightarrow> real \<Rightarrow> edge2d list" where
  "all_edges_of f ax scale =
     outer_edges_of f ax scale @ concat (inner_wires_edges_of f ax scale)"

definition profile_of_face :: "shape \<Rightarrow> face \<Rightarrow> axis \<Rightarrow> real \<Rightarrow> ProfileResult" where
  "profile_of_face sh f ax unit_to_inches =
     \<lparr> edges = all_edges_of f ax unit_to_inches,
       wires = outer_edges_of f ax unit_to_inches # inner_wires_edges_of f ax unit_to_inches,
       thickness_inches = extents sh ax * unit_to_inches,
       extrusion_axis = ax \<rparr>"

text \<open>
  \<^verbatim>\<open>max(candidate_faces, key=_face_area)\<close>, reached only when there is a candidate.
\<close>

definition best_face :: "shape \<Rightarrow> axis \<Rightarrow> face option" where
  "best_face sh ax =
     (case candidate_faces sh ax of [] \<Rightarrow> None | c # cs \<Rightarrow> Some (max_key face_area c cs))"

text \<open>
  The \<^verbatim>\<open>for axis in axes_sorted\<close> loop: \<open>None\<close> when the loop runs to its end without
  returning.
\<close>

fun try_axes :: "shape \<Rightarrow> real \<Rightarrow> axis list \<Rightarrow> ProfileResult option" where
  "try_axes sh unit_to_inches [] = None"
| "try_axes sh unit_to_inches (ax # rest) =
     (case best_face sh ax of
        None \<Rightarrow> try_axes sh unit_to_inches rest
      | Some bf \<Rightarrow>
          if is_rectangle (all_edges_of bf ax unit_to_inches)
          then try_axes sh unit_to_inches rest
          else Some (profile_of_face sh bf ax unit_to_inches))"

text \<open>
  An axis on which the loop returns: it has a candidate face and the edges of the best one
  are not rejected as a rectangle.
\<close>

definition axis_accepted :: "shape \<Rightarrow> real \<Rightarrow> axis \<Rightarrow> bool" where
  "axis_accepted sh u ax =
     (case best_face sh ax of
        None \<Rightarrow> False
      | Some bf \<Rightarrow> \<not> is_rectangle (all_edges_of bf ax u))"

text \<open>
  The code after the loop. \<^verbatim>\<open>shape.faces().vals()[0]\<close> raises IndexError on a solid
  without faces.
\<close>

definition fallback :: "shape \<Rightarrow> real \<Rightarrow> py_error + ProfileResult" where
  "fallback sh unit_to_inches =
     (case axes_sorted sh of
        [] \<Rightarrow> Inl IndexError
      | ax # _ \<Rightarrow>
          (case best_face sh ax of
             Some bf \<Rightarrow> Inr (profile_of_face sh bf ax unit_to_inches)
           | None \<Rightarrow>
               (case faces sh of
                  [] \<Rightarrow> Inl IndexError
                | f # _ \<Rightarrow> Inr (profile_of_face sh f ax unit_to_inches))))"

definition extract_profile :: "shape \<Rightarrow> real \<Rightarrow> py_error + ProfileResult" where
  "extract_profile sh unit_to_inches =
     (case try_axes sh unit_to_inches (axes_sorted sh) of
        Some res \<Rightarrow> Inr res
      | None \<Rightarrow> fallback sh unit_to_inches)"

section \<open>optimizer.py\<close>

record OptimizedProfile =
  opt_edges :: "edge2d list"
  opt_wires :: "edge2d list list"
  bbox_w :: real
  bbox_h :: real
  rotation_deg :: real
  opt_thickness_inches :: real

type_synonym point = "real \<times> real"

fun sample_arc_points :: "edge2d \<Rightarrow> nat \<Rightarrow> point list" where
  "sample_arc_points (Arc2D cx cy r start_deg sweep_deg x1 y1 x2 y2) n_per_full_circle =
     (let sa = radians start_deg;
          sweep_rad = radians sweep_deg;
          n = nat (max 8 (py_int (\<bar>sweep_deg\<bar> / 360 * real n_per_full_circle)))
      in [(x1, y1), (x2, y2)] @
         map (\<lambda>i. let a = sa + sweep_rad * real i / real n
                   in (cx + r * cos a, cy + r * sin a))
           [1 ..< n])"
| "sample_arc_points _ n_per_full_circle = []"

text \<open>The points one edge contributes in the loop of \<^verbatim>\<open>_sample_points\<close>.\<close>

fun edge_points :: "edge2d \<Rightarrow> point list" where
  "edge_points (Line2D x1 y1 x2 y2) = [(x1, y1), (x2, y2)]"
| "edge_points (Circle2D cx cy r) =
     map (\<lambda>i. let a = 2 * pi * real i / 64 in (cx + r * cos a, cy + r * sin a)) [0 ..< 64]"
| "edge_points (Arc2D cx cy r start_deg sweep_deg x1 y1 x2 y2) =
     sample_arc_points (Arc2D cx cy r start_deg sweep_deg x1 y1 x2 y2) 64"
| "edge_points (Polyline2D points) = points"

definition sample_points :: "edge2d list \<Rightarrow> point list" where
  "sample_points es = concat (map edge_points es)"

text \<open>
  \<^verbatim>\<open>_find_optimal_angle\<close>. The convex hull and its minimum rotated rectangle come from the
  geometry library; \<open>mrr\<close> stands for
  \<^verbatim>\<open>list(MultiPoint(pts).convex_hull.minimum_rotated_rectangle.exterior.coords)\<close>, an error
  where the library raises.
\<close>

type_synonym mrr_fun = "point list \<Rightarrow> py_error + point list"

definition find_optimal_angle :: "mrr_fun \<Rightarrow> point list \<Rightarrow> py_error + real" where
  "find_optimal_angle mrr pts =
     (if length pts < 3 then Inr 0
      else case mrr pts of
             Inl err \<Rightarrow> Inl err
           | Inr coords \<Rightarrow>
               (case coords of
                  c0 # c1 # _ \<Rightarrow> Inr (degrees (atan2 (snd c1 - snd c0) (fst c1 - fst c0)))
                | _ \<Rightarrow> Inl IndexError))"

definition rotate_point :: "real \<Rightarrow> real \<Rightarrow> real \<Rightarrow> real \<Rightarrow> point" where
  "rotate_point x y cos_a sin_a = (x * cos_a - y * sin_a, x * sin_a + y * cos_a)"

fun rotate_edge :: "edge2d \<Rightarrow> real \<Rightarrow> real \<Rightarrow> edge2d" where
  "rotate_edge (Line2D x1 y1 x2 y2) cos_a sin_a =
     (let (x1r, y1r) = rotate_point x1 y1 cos_a sin_a;
          (x2r, y2r) = rotate_point x2 y2 cos_a sin_a
      in Line2D x1r y1r x2r y2r)"
| "rotate_edge (Circle2D cx cy r) cos_a sin_a =
     (let (cxr, cyr) = rotate_point cx cy cos_a sin_a in Circle2D cxr cyr r)"
| "rotate_edge (Arc2D cx cy r start_deg sweep_deg x1 y1 x2 y2) cos_a sin_a =
     (let (cxr, cyr) = rotate_point cx cy cos_a sin_a;
          (x1r, y1r) = rotate_point x1 y1 cos_a sin_a;
          (x2r, y2r) = rotate_point x2 y2 cos_a sin_a;
          angle_offset = degrees (atan2 sin_a cos_a)
      in Arc2D cxr cyr r (start_deg + angle_offset) sweep_deg x1r y1r x2r y2r)"
| "rotate_edge (Polyline2D points) cos_a sin_a =
     Polyline2D (map (\<lambda>(x, y). rotate_point x y cos_a sin_a) points)"

fun translate_edge :: "edge2d \<Rightarrow> real \<Rightarrow> real \<Rightarrow> edge2d" where
  "translate_edge (Line2D x1 y1 x2 y2) dx dy = Line2D (x1 + dx) (y1 + dy) (x2 + dx) (y2 + dy)"
| "translate_edge (Circle2D cx cy r) dx dy = Circle2D (cx + dx) (cy + dy) r"
| "translate_edge (Arc2D cx cy r start_deg sweep_deg x1 y1 x2 y2) dx dy =
     Arc2D (cx + dx) (cy + dy) r start_deg sweep_deg (x1 + dx) (y1 + dy) (x2 + dx) (y2 + dy)"
| "translate_edge (Polyline2D points) dx dy =
     Polyline2D (map (\<lambda>(x, y). (x + dx, y + dy)) points)"

text \<open>\<^verbatim>\<open>min(xs)\<close> and \<^verbatim>\<open>max(xs)\<close>: ValueError on an empty list.\<close>

fun py_min :: "real list \<Rightarrow> py_error + real" where
  "py_min [] = Inl ValueError"
| "py_min (x # xs) = Inr (fold min xs x)"

fun py_max :: "real list \<Rightarrow> py_error + real" where
  "py_max [] = Inl ValueError"
| "py_max (x # xs) = Inr (fold max xs x)"

definition optimize_rotation :: "mrr_fun \<Rightarrow> ProfileResult \<Rightarrow> py_error + OptimizedProfile" where
  "optimize_rotation mrr profile =
     (let pts = sample_points (edges profile)
      in case find_optimal_angle mrr pts of
           Inl err \<Rightarrow> Inl err
         | Inr angle_deg \<Rightarrow>
             (let rad = radians (- angle_deg);
                  cos_a = cos rad;
                  sin_a = sin rad;
                  rotated_edges = map (\<lambda>e. rotate_edge e cos_a sin_a) (edges profile);
                  rotated_wires = map (map (\<lambda>e. rotate_edge e cos_a sin_a)) (wires profile);
                  rotated_pts = sample_points rotated_edges;
                  xs = map fst rotated_pts;
                  ys = map snd rotated_pts
              in case (py_min xs, py_max xs, py_min ys, py_max ys) of
                   (Inr xmin, Inr xmax, Inr ymin, Inr ymax) \<Rightarrow>
                     (let dx = - xmin; dy = - ymin;
                          translated_edges = map (\<lambda>e. translate_edge e dx dy) rotated_edges;
                          translated_wires =
                            map (map (\<lambda>e. translate_edge e dx dy)) rotated_wires
                      in Inr \<lparr> opt_edges = translated_edges,
                               opt_wires = translated_wires,
                               bbox_w = xmax - xmin,
                               bbox_h = ymax - ymin,
                               rotation_deg = - angle_deg,
                               opt_thickness_inches = thickness_inches profile \<rparr>)
                 | _ \<Rightarrow> Inl ValueError))"


section \<open>optimizer.py on a store of edge objects\<close>

text \<open>
  The dataclass instances are mutable objects that a ProfileResult refers to, and the same
  instance is in \<^verbatim>\<open>edges\<close> and in one of the \<^verbatim>\<open>wires\<close>. To speak about what
  \<^verbatim>\<open>optimize_rotation\<close> does to them, the store holds the edge objects, a reference is an
  index into it, and constructing an instance appends to the store.
\<close>

type_synonym ref = nat
type_synonym store = "edge2d list"

record ProfileResult_ref =
  r_edges :: "ref list"
  r_wires :: "ref list list"
  r_thickness_inches :: real
  r_extrusion_axis :: axis

record OptimizedProfile_ref =
  ro_edges :: "ref list"
  ro_wires :: "ref list list"
  ro_bbox_w :: real
  ro_bbox_h :: real
  ro_rotation_deg :: real
  ro_thickness_inches :: real

definition alloc :: "edge2d \<Rightarrow> store \<Rightarrow> ref \<times> store" where
  "alloc v h = (length h, h @ [v])"

text \<open>
  \<^verbatim>\<open>_rotate_edge\<close> and \<^verbatim>\<open>_translate_edge\<close> read the fields of their argument and return a
  newly constructed instance: \<open>new_edge_h g\<close> reads the object at \<open>r\<close> and allocates \<open>g\<close> of it.
\<close>

definition new_edge_h :: "(edge2d \<Rightarrow> edge2d) \<Rightarrow> ref \<Rightarrow> store \<Rightarrow> ref \<times> store" where
  "new_edge_h g r h = alloc (g (h ! r)) h"

text \<open>The list comprehensions, threading the store.\<close>

fun map_h :: "(ref \<Rightarrow> store \<Rightarrow> ref \<times> store) \<Rightarrow> ref list \<Rightarrow> store \<Rightarrow> ref list \<times> store" where
  "map_h f [] h = ([], h)"
| "map_h f (r # rs) h =
     (let (r', h1) = f r h; (rs', h2) = map_h f rs h1 in (r' # rs', h2))"

fun map_wires_h ::
  "(ref \<Rightarrow> store \<Rightarrow> ref \<times> store) \<Rightarrow> ref list list \<Rightarrow> store \<Rightarrow> ref list list \<times> store" where
  "map_wires_h f [] h = ([], h)"
| "map_wires_h f (w # ws) h =
     (let (w', h1) = map_h f w h; (ws', h2) = map_wires_h f ws h1 in (w' # ws', h2))"

definition deref :: "store \<Rightarrow> ref list \<Rightarrow> edge2d list" where
  "deref h rs = map (\<lambda>r. h ! r) rs"

definition optimize_rotation_h ::
  "mrr_fun \<Rightarrow> ProfileResult_ref \<Rightarrow> store \<Rightarrow> py_error + (OptimizedProfile_ref \<times> store)" where
  "optimize_rotation_h mrr profile h =
     (let pts = sample_points (deref h (r_edges profile))
      in case find_optimal_angle mrr pts of
           Inl err \<Rightarrow> Inl err
         | Inr angle_deg \<Rightarrow>
             (let rad = radians (- angle_deg);
                  cos_a = cos rad;
                  sin_a = sin rad;
                  (rotated_edges, h1) =
                     map_h (new_edge_h (\<lambda>e. rotate_edge e cos_a sin_a)) (r_edges profile) h;
                  (rotated_wires, h2) =
                     map_wires_h (new_edge_h (\<lambda>e. rotate_edge e cos_a sin_a))
                       (r_wires profile) h1;
                  rotated_pts = sample_points (deref h2 rotated_edges);
                  xs = map fst rotated_pts;
                  ys = map snd rotated_pts
              in case (py_min xs, py_max xs, py_min ys, py_max ys) of
                   (Inr xmin, Inr xmax, Inr ymin, Inr ymax) \<Rightarrow>
                     (let dx = - xmin; dy = - ymin;
                          (translated_edges, h3) =
                             map_h (new_edge_h (\<lambda>e. translate_edge e dx dy)) rotated_edges h2;
                          (translated_wires, h4) =
                             map_wires_h (new_edge_h (\<lambda>e. translate_edge e dx dy))
                               rotated_wires h3
                      in Inr (\<lparr> ro_edges = translated_edges,
                                 ro_wires = translated_wires,
                                 ro_bbox_w = xmax - xmin,
                                 ro_bbox_h = ymax - ymin,
                                 ro_rotation_deg = - angle_deg,
                                 ro_thickness_inches = r_thickness_inches profile \<rparr>, h4))
                 | _ \<Rightarrow> Inl ValueError))"

text \<open>What a reference profile denotes in a store.\<close>

definition deref_profile :: "store \<Rightarrow> ProfileResult_ref \<Rightarrow> ProfileResult" where
  "deref_profile h p =
     \<lparr> edges = deref h (r_edges p), wires = map (deref h) (r_wires p),
       thickness_inches = r_thickness_inches p, extrusion_axis = r_extrusion_axis p \<rparr>"

definition deref_optimized :: "store \<Rightarrow> OptimizedProfile_ref \<Rightarrow> OptimizedProfile" where
  "deref_optimized h out =
     \<lparr> opt_edges = deref h (ro_edges out), opt_wires = map (deref h) (ro_wires out),
       bbox_w = ro_bbox_w out, bbox_h = ro_bbox_h out, rotation_deg = ro_rotation_deg out,
       opt_thickness_inches = ro_thickness_inches out \<rparr>"

text \<open>The references a sequence of allocations returns, wire by wire.\<close>

fun fresh_wires :: "nat \<Rightarrow> ref list list \<Rightarrow> ref list list" where
  "fresh_wires n [] = []"
| "fresh_wires n (w # ws) = [n ..< n + length w] # fresh_wires (n + length w) ws"

text \<open>
  The references of a list are valid in a store; the references of a list were allocated
  after store \<open>h\<close> and are valid in \<open>h'\<close>.
\<close>

definition valid_refs :: "store \<Rightarrow> ref list \<Rightarrow> bool" where
  "valid_refs h rs = list_all (\<lambda>r. r < length h) rs"

definition fresh_refs :: "store \<Rightarrow> store \<Rightarrow> ref list \<Rightarrow> bool" where
  "fresh_refs h h' rs = list_all (\<lambda>r. length h \<le> r \<and> r < length h') rs"

section \<open>dxf_min_bound/main.py\<close>

text \<open>
  The entities of a DXF modelspace that the tool distinguishes by \<^verbatim>\<open>dxftype()\<close>, with the
  attributes it reads and writes: \<^verbatim>\<open>LINE\<close> (start, end), \<^verbatim>\<open>CIRCLE\<close> (center, radius),
  \<^verbatim>\<open>ARC\<close> (center, radius, start_angle, end_angle), \<^verbatim>\<open>LWPOLYLINE\<close> (points in the
  format \<^verbatim>\<open>xyb\<close>); every other type is left alone.
\<close>

datatype entity =
    LINE vec3 vec3
  | CIRCLE vec3 real
  | ARC vec3 real real real
  | LWPOLYLINE "(real \<times> real \<times> real) list"
  | OTHER string

fun sample_entity_points :: "entity \<Rightarrow> nat \<Rightarrow> point list" where
  "sample_entity_points (LINE start end) n =
     [(fst start, fst (snd start)), (fst end, fst (snd end))]"
| "sample_entity_points (CIRCLE center r) n =
     (let cx = fst center; cy = fst (snd center)
      in map (\<lambda>i. let a = 2 * pi * real i / real n in (cx + r * cos a, cy + r * sin a))
           [0 ..< n])"
| "sample_entity_points (ARC center r sa ea) n =
     (let cx = fst center; cy = fst (snd center);
          span0 = py_fmod (ea - sa) 360;
          span = (if span0 = 0 then 360 else span0);
          steps = nat (max 8 (py_int (span / 360 * real n)))
      in map (\<lambda>i. let a = radians (sa + span * real i / real steps)
                   in (cx + r * cos a, cy + r * sin a))
           [0 ..< steps + 1])"
| "sample_entity_points (LWPOLYLINE pts) n = map (\<lambda>(x, y, b). (x, y)) pts"
| "sample_entity_points (OTHER t) n = []"

definition dxf_find_optimal_angle :: "mrr_fun \<Rightarrow> point list \<Rightarrow> py_error + real" where
  "dxf_find_optimal_angle mrr all_pts =
     (if length all_pts < 3 then Inr 0
      else case mrr all_pts of
             Inl err \<Rightarrow> Inl err
           | Inr coords \<Rightarrow>
               (case coords of
                  c0 # c1 # _ \<Rightarrow> Inr (degrees (atan2 (snd c1 - snd c0) (fst c1 - fst c0)))
                | _ \<Rightarrow> Inl IndexError))"

definition rotate_pt :: "real \<Rightarrow> real \<Rightarrow> real \<Rightarrow> real \<Rightarrow> point" where
  "rotate_pt x y cos_a sin_a = (x * cos_a - y * sin_a, x * sin_a + y * cos_a)"

text \<open>The two loops of \<^verbatim>\<open>_apply_rotation\<close>, one entity at a time.\<close>

fun rotate_entity :: "real \<Rightarrow> real \<Rightarrow> real \<Rightarrow> entity \<Rightarrow> entity" where
  "rotate_entity angle_deg cos_a sin_a (LINE start end) =
     (let (sx, sy) = rotate_pt (fst start) (fst (snd start)) cos_a sin_a;
          (ex, ey) = rotate_pt (fst end) (fst (snd end)) cos_a sin_a
      in LINE (sx, sy, 0) (ex, ey, 0))"
| "rotate_entity angle_deg cos_a sin_a (CIRCLE center r) =
     (let (cx, cy) = rotate_pt (fst center) (fst (snd center)) cos_a sin_a
      in CIRCLE (cx, cy, 0) r)"
| "rotate_entity angle_deg cos_a sin_a (ARC center r sa ea) =
     (let (cx, cy) = rotate_pt (fst center) (fst (snd center)) cos_a sin_a
      in ARC (cx, cy, 0) r (py_fmod (sa + angle_deg) 360) (py_fmod (ea + angle_deg) 360))"
| "rotate_entity angle_deg cos_a sin_a (LWPOLYLINE pts) =
     LWPOLYLINE (map (\<lambda>(x, y, b). let (rx, ry) = rotate_pt x y cos_a sin_a in (rx, ry, b)) pts)"
| "rotate_entity angle_deg cos_a sin_a (OTHER t) = OTHER t"

fun translate_entity :: "real \<Rightarrow> real \<Rightarrow> entity \<Rightarrow> entity" where
  "translate_entity ox oy (LINE start end) =
     LINE (fst start - ox, fst (snd start) - oy, 0) (fst end - ox, fst (snd end) - oy, 0)"
| "translate_entity ox oy (CIRCLE center r) =
     CIRCLE (fst center - ox, fst (snd center) - oy, 0) r"
| "translate_entity ox oy (ARC center r sa ea) =
     ARC (fst center - ox, fst (snd center) - oy, 0) r sa ea"
| "translate_entity ox oy (LWPOLYLINE pts) =
     LWPOLYLINE (map (\<lambda>(x, y, b). (x - ox, y - oy, b)) pts)"
| "translate_entity ox oy (OTHER t) = OTHER t"

text \<open>
  \<open>bbox\<close> stands for \<^verbatim>\<open>ezdxf.bbox.extents\<close>: the pair \<^verbatim>\<open>(extmin, extmax)\<close> of the drawing
  library's bounding box of the entities.
\<close>

type_synonym bbox_fun = "entity list \<Rightarrow> vec3 \<times> vec3"

definition apply_rotation :: "bbox_fun \<Rightarrow> entity list \<Rightarrow> real \<Rightarrow> entity list \<times> real \<times> real" where
  "apply_rotation bbox msp angle_deg =
     (let rad = radians angle_deg;
          cos_a = cos rad;
          sin_a = sin rad;
          msp1 = map (rotate_entity angle_deg cos_a sin_a) msp;
          extmin = fst (bbox msp1);
          ox = fst extmin;
          oy = fst (snd extmin);
          msp2 = map (translate_entity ox oy) msp1;
          extmax = snd (bbox msp2)
      in (msp2, fst extmax, fst (snd extmax)))"

text \<open>
  \<^verbatim>\<open>process_dxf\<close> without the file reading and writing: the entities of the modelspace go
  in, the rotated entities, the rotation and the bounding box come out.
\<close>

definition process_dxf ::
  "bbox_fun \<Rightarrow> mrr_fun \<Rightarrow> entity list \<Rightarrow> py_error + (entity list \<times> real \<times> real \<times> real)" where
  "process_dxf bbox mrr msp =
     (let all_pts = concat (map (\<lambda>entity. sample_entity_points entity 64) msp)
      in if all_pts = [] then Inl ValueError
         else case dxf_find_optimal_angle mrr all_pts of
                Inl err \<Rightarrow> Inl err
              | Inr mrr_angle \<Rightarrow>
                  (let angle_deg = - mrr_angle;
                       (msp', bbox_w, bbox_h) = apply_rotation bbox msp angle_deg
                   in Inr (msp', angle_deg, bbox_w, bbox_h)))"

section \<open>exporters/dxf_exporter.py\<close>




section \<open>Sample inputs\<close>

text \<open>
  Concrete kernel objects, solids and profiles on which the definitions are evaluated: a
  sphere (one face, not planar), a square plate with a bore, an L-shaped bar, a solid
  without faces, and small profiles for the optimizer.
\<close>

definition line_curve :: "vec3 \<Rightarrow> vec3 \<Rightarrow> curve" where
  "line_curve p q =
     \<lparr> GetType = GeomAbs_Line, FirstParameter = 0, LastParameter = 1,
       Value = (\<lambda>t. (fst p + t * (fst q - fst p),
                     fst (snd p) + t * (fst (snd q) - fst (snd p)),
                     snd (snd p) + t * (snd (snd q) - snd (snd p)))),
       Circle_Location = (0, 0, 0), Circle_Radius = 0 \<rparr>"

definition circle_curve :: "vec3 \<Rightarrow> real \<Rightarrow> real \<Rightarrow> real \<Rightarrow> curve" where
  "circle_curve c r t0 t1 =
     \<lparr> GetType = GeomAbs_Circle, FirstParameter = t0, LastParameter = t1,
       Value = (\<lambda>t. (fst c + r * cos t, fst (snd c) + r * sin t, snd (snd c))),
       Circle_Location = c, Circle_Radius = r \<rparr>"

definition sphere_face :: face where
  "sphere_face =
     \<lparr> geomType = ''SPHERE'', normalAt_Center = Some (1, 0, 0), face_area = 4 * pi,
       outerWire = [circle_curve (0, 0, 0) 1 0 pi], innerWires = [] \<rparr>"

definition sphere_solid :: shape where
  "sphere_solid = \<lparr> bb_xmin = -1, bb_xmax = 1, bb_ymin = -1, bb_ymax = 1, bb_zmin = -1, bb_zmax = 1,
                     faces = [sphere_face] \<rparr>"

definition square_wire :: "real \<Rightarrow> curve list" where
  "square_wire z =
     [line_curve (0, 0, z) (2, 0, z), line_curve (2, 0, z) (2, 2, z),
      line_curve (2, 2, z) (0, 2, z), line_curve (0, 2, z) (0, 0, z)]"

definition plate_top :: face where
  "plate_top =
     \<lparr> geomType = ''PLANE'', normalAt_Center = Some (0, 0, 1), face_area = 4 - pi / 4,
       outerWire = square_wire 1,
       innerWires = [[circle_curve (1, 1, 1) (1 / 2) 0 (2 * pi)]] \<rparr>"

definition plate_bottom :: face where
  "plate_bottom =
     \<lparr> geomType = ''PLANE'', normalAt_Center = Some (0, 0, -1), face_area = 4 - pi / 4,
       outerWire = square_wire 0,
       innerWires = [[circle_curve (1, 1, 0) (1 / 2) 0 (2 * pi)]] \<rparr>"

definition plate_side :: "vec3 \<Rightarrow> vec3 \<Rightarrow> vec3 \<Rightarrow> face" where
  "plate_side n p q =
     \<lparr> geomType = ''PLANE'', normalAt_Center = Some n, face_area = 2,
       outerWire = [line_curve p q,
                    line_curve q (fst q, fst (snd q), 1),
                    line_curve (fst q, fst (snd q), 1) (fst p, fst (snd p), 1),
                    line_curve (fst p, fst (snd p), 1) p],
       innerWires = [] \<rparr>"

definition plate_bore :: face where
  "plate_bore =
     \<lparr> geomType = ''CYLINDER'', normalAt_Center = Some (1, 0, 0), face_area = pi,
       outerWire = [circle_curve (1, 1, 0) (1 / 2) 0 (2 * pi),
                    circle_curve (1, 1, 1) (1 / 2) 0 (2 * pi)],
       innerWires = [] \<rparr>"

definition plate_solid :: shape where
  "plate_solid =
     \<lparr> bb_xmin = 0, bb_xmax = 2, bb_ymin = 0, bb_ymax = 2, bb_zmin = 0, bb_zmax = 1,
       faces = [plate_top, plate_bottom,
                plate_side (0, -1, 0) (0, 0, 0) (2, 0, 0),
                plate_side (1, 0, 0) (2, 0, 0) (2, 2, 0),
                plate_side (0, 1, 0) (2, 2, 0) (0, 2, 0),
                plate_side (-1, 0, 0) (0, 2, 0) (0, 0, 0),
                plate_bore] \<rparr>"

definition empty_solid :: shape where
  "empty_solid = \<lparr> bb_xmin = 0, bb_xmax = 0, bb_ymin = 0, bb_ymax = 0, bb_zmin = 0, bb_zmax = 0, faces = [] \<rparr>"

fun poly_wire :: "(real \<times> real) \<Rightarrow> (real \<times> real) list \<Rightarrow> real \<Rightarrow> curve list" where
  "poly_wire p0 [] z = []"
| "poly_wire p0 [p] z = [line_curve (fst p, snd p, z) (fst p0, snd p0, z)]"
| "poly_wire p0 (p # q # ps) z =
     line_curve (fst p, snd p, z) (fst q, snd q, z) # poly_wire p0 (q # ps) z"

definition side_face :: "vec3 \<Rightarrow> real \<Rightarrow> real \<times> real \<Rightarrow> real \<times> real \<Rightarrow> real \<Rightarrow> face" where
  "side_face n a p q h =
     \<lparr> geomType = ''PLANE'', normalAt_Center = Some n, face_area = a,
       outerWire = [line_curve (fst p, snd p, 0) (fst q, snd q, 0),
                    line_curve (fst q, snd q, 0) (fst q, snd q, h),
                    line_curve (fst q, snd q, h) (fst p, snd p, h),
                    line_curve (fst p, snd p, h) (fst p, snd p, 0)],
       innerWires = [] \<rparr>"

definition L_cap :: "real \<Rightarrow> vec3 \<Rightarrow> face" where
  "L_cap z n =
     \<lparr> geomType = ''PLANE'', normalAt_Center = Some n, face_area = 5,
       outerWire = poly_wire (0, 0) [(0, 0), (3, 0), (3, 1), (1, 1), (1, 3), (0, 3)] z,
       innerWires = [] \<rparr>"

definition L_solid :: shape where
  "L_solid =
     \<lparr> bb_xmin = 0, bb_xmax = 3, bb_ymin = 0, bb_ymax = 3, bb_zmin = 0, bb_zmax = 5,
       faces = [L_cap 5 (0, 0, 1), L_cap 0 (0, 0, -1),
                side_face (0, -1, 0) 15 (0, 0) (3, 0) 5,
                side_face (1, 0, 0) 5 (3, 0) (3, 1) 5,
                side_face (0, 1, 0) 10 (3, 1) (1, 1) 5,
                side_face (1, 0, 0) 10 (1, 1) (1, 3) 5,
                side_face (0, 1, 0) 5 (1, 3) (0, 3) 5,
                side_face (-1, 0, 0) 15 (0, 3) (0, 0) 5] \<rparr>"

definition empty_profile :: ProfileResult where
  "empty_profile =
     \<lparr> edges = [], wires = [[]], thickness_inches = 1 / 8, extrusion_axis = Z_axis \<rparr>"

definition single_line_profile :: ProfileResult where
  "single_line_profile =
     \<lparr> edges = [Line2D 1 2 4 6], wires = [[Line2D 1 2 4 6]], thickness_inches = 1 / 8,
       extrusion_axis = Z_axis \<rparr>"


definition diamond_mrr :: mrr_fun where
  "diamond_mrr pts = Inr [(0, 0), (1, 1), (0, 2), (-1, 1), (0, 0)]"

definition line_store :: store where
  "line_store = [Line2D 1 2 4 6]"

definition line_profile_ref :: ProfileResult_ref where
  "line_profile_ref =
     \<lparr> r_edges = [0], r_wires = [[0]], r_thickness_inches = 1 / 8,
       r_extrusion_axis = Z_axis \<rparr>"



section \<open>Properties of extract_profile\<close>

lemma length_axes_sorted: "length (axes_sorted sh) = 3"
  by (simp add: axes_sorted_def)

lemma axes_sorted_Cons: "\<exists>a b c. axes_sorted sh = [a, b, c]"
  using length_axes_sorted [of sh]
  by (metis (no_types, opaque_lifting) length_0_conv length_Suc_conv numeral_3_eq_3)

lemma set_axes_sorted: "set (axes_sorted sh) = {X_axis, Y_axis, Z_axis}"
  by (auto simp: axes_sorted_def)

lemma candidate_faces_subset: "set (candidate_faces sh ax) \<subseteq> set (faces sh)"
  by (auto simp: candidate_faces_def)

lemma candidate_faces_planar: "f \<in> set (candidate_faces sh ax) \<Longrightarrow> geomType f = ''PLANE''"
  by (auto simp: candidate_faces_def)

lemma best_face_None_iff: "best_face sh ax = None \<longleftrightarrow> candidate_faces sh ax = []"
  by (simp add: best_face_def split: list.splits)

lemma no_planar_candidates:
  "\<forall>f \<in> set (faces sh). geomType f \<noteq> ''PLANE'' \<Longrightarrow> candidate_faces sh ax = []"
  by (auto simp: candidate_faces_def filter_empty_conv)

lemma try_axes_no_candidates:
  "\<forall>ax \<in> set as. candidate_faces sh ax = [] \<Longrightarrow> try_axes sh u as = None"
  by (induction as) (simp_all add: best_face_def)

lemma fallback_no_faces: "faces sh = [] \<Longrightarrow> fallback sh u = Inl IndexError"
  using axes_sorted_Cons [of sh]
  by (auto simp: fallback_def best_face_def candidate_faces_def)

lemma fallback_some_face: "faces sh \<noteq> [] \<Longrightarrow> \<exists>res. fallback sh u = Inr res"
  using axes_sorted_Cons [of sh]
  by (auto simp: fallback_def split: option.splits list.splits)

lemma extract_profile_no_faces: "faces sh = [] \<Longrightarrow> extract_profile sh u = Inl IndexError"
proof -
  assume h: "faces sh = []"
  have "\<forall>ax \<in> set (axes_sorted sh). candidate_faces sh ax = []"
    using h by (simp add: candidate_faces_def)
  then have "try_axes sh u (axes_sorted sh) = None" by (rule try_axes_no_candidates)
  then show ?thesis using h by (simp add: extract_profile_def fallback_no_faces)
qed

lemma extract_profile_some_face: "faces sh \<noteq> [] \<Longrightarrow> \<exists>res. extract_profile sh u = Inr res"
  using fallback_some_face [of sh u]
  by (auto simp: extract_profile_def split: option.splits)

lemma extract_profile_no_planar:
  assumes np: "\<forall>f \<in> set (faces sh). geomType f \<noteq> ''PLANE''" and f: "faces sh = f # fs"
  shows "extract_profile sh u = Inr (profile_of_face sh f (hd (axes_sorted sh)) u)"
proof -
  have c: "\<And>ax. candidate_faces sh ax = []" using np by (rule no_planar_candidates)
  then have "try_axes sh u (axes_sorted sh) = None" by (simp add: try_axes_no_candidates)
  moreover have "fallback sh u = Inr (profile_of_face sh f (hd (axes_sorted sh)) u)"
    using axes_sorted_Cons [of sh] f c by (auto simp: fallback_def best_face_def)
  ultimately show ?thesis by (simp add: extract_profile_def)
qed

text \<open>
  C1 (as the code has it). \<^verbatim>\<open>extract_profile\<close> raises exactly for a solid without any face,
  and what it raises is the IndexError of \<^verbatim>\<open>shape.faces().vals()[0]\<close>; for a solid with at
  least one face, planar or not, it returns a ProfileResult.
\<close>

theorem extract_profile_error_iff:
  "(faces sh = [] \<longrightarrow> extract_profile sh u = Inl IndexError) \<and>
   (faces sh \<noteq> [] \<longrightarrow> (\<exists>res. extract_profile sh u = Inr res))"
  using extract_profile_no_faces extract_profile_some_face by blast

theorem extract_profile_error_iff_witness:
  "faces sphere_solid \<noteq> [] \<and> (\<exists>res. extract_profile sphere_solid 1 = Inr res) \<and>
   faces empty_solid = [] \<and> extract_profile empty_solid 1 = Inl IndexError"
  using extract_profile_error_iff [of sphere_solid 1] extract_profile_error_iff [of empty_solid 1]
  by (simp add: sphere_solid_def empty_solid_def)

text \<open>
  C1 as stated fails: a sphere has one face and it is not planar, yet the fallback takes
  that first face and a profile is returned.
\<close>

theorem no_planar_faces_counterexample:
  "map geomType (faces sphere_solid) = [''SPHERE''] \<and>
   extract_profile sphere_solid 1 = Inr (profile_of_face sphere_solid sphere_face X_axis 1)"
proof -
  have np: "\<forall>f \<in> set (faces sphere_solid). geomType f \<noteq> ''PLANE''"
    by (simp add: sphere_solid_def sphere_face_def)
  have "axes_sorted sphere_solid = [X_axis, Y_axis, Z_axis]"
    by (simp add: axes_sorted_def sphere_solid_def)
  then show ?thesis
    using np extract_profile_no_planar [of sphere_solid sphere_face "[]" 1]
    by (simp add: sphere_solid_def sphere_face_def)
qed

lemma upt_0_4: "[0 ..< 4] = [0, 1, 2, 3::nat]"
  by code_simp

lemma is_rectangle_iff:
  "is_rectangle es \<longleftrightarrow>
     (\<exists>a b c d. es = [a, b, c, d] \<and> isLine2D a \<and> isLine2D b \<and> isLine2D c \<and> isLine2D d \<and>
        \<bar>rect_dot a b\<bar> \<le> 0.05 \<and> \<bar>rect_dot b c\<bar> \<le> 0.05 \<and>
        \<bar>rect_dot c d\<bar> \<le> 0.05 \<and> \<bar>rect_dot d a\<bar> \<le> 0.05)"
proof
  assume r: "is_rectangle es"
  then have len: "length (filter isLine2D es) = length es" "length es = 4"
    by (auto simp: is_rectangle_def Let_def split: if_splits)
  then have f: "filter isLine2D es = es"
    by (metis length_filter_less less_irrefl_nat filter_True)
  from len(2) obtain a b c d where es: "es = [a, b, c, d]"
    by (auto simp: numeral_eq_Suc length_Suc_conv)
  from f es have l: "isLine2D a \<and> isLine2D b \<and> isLine2D c \<and> isLine2D d"
    by (metis filter_id_conv list.set_intros(1) list.set_intros(2))
  from r es l have
    "list_all (\<lambda>i. \<not> \<bar>rect_dot ([a, b, c, d] ! i) ([a, b, c, d] ! ((i + 1) mod 4))\<bar> > 0.05)
       [0 ..< 4]"
    by (simp add: is_rectangle_def Let_def)
  then have "\<bar>rect_dot a b\<bar> \<le> 0.05 \<and> \<bar>rect_dot b c\<bar> \<le> 0.05 \<and>
        \<bar>rect_dot c d\<bar> \<le> 0.05 \<and> \<bar>rect_dot d a\<bar> \<le> 0.05"
    by (simp add: upt_0_4 not_less)
  with es l show "\<exists>a b c d. es = [a, b, c, d] \<and> isLine2D a \<and> isLine2D b \<and> isLine2D c \<and> isLine2D d \<and>
        \<bar>rect_dot a b\<bar> \<le> 0.05 \<and> \<bar>rect_dot b c\<bar> \<le> 0.05 \<and>
        \<bar>rect_dot c d\<bar> \<le> 0.05 \<and> \<bar>rect_dot d a\<bar> \<le> 0.05" by blast
next
  assume "\<exists>a b c d. es = [a, b, c, d] \<and> isLine2D a \<and> isLine2D b \<and> isLine2D c \<and> isLine2D d \<and>
        \<bar>rect_dot a b\<bar> \<le> 0.05 \<and> \<bar>rect_dot b c\<bar> \<le> 0.05 \<and>
        \<bar>rect_dot c d\<bar> \<le> 0.05 \<and> \<bar>rect_dot d a\<bar> \<le> 0.05"
  then show "is_rectangle es"
    by (auto simp: is_rectangle_def upt_0_4 not_less)
qed

lemma line_curve_edge:
  "extract_edge (line_curve (a, b, c) (d, e, f)) Z_axis 1 = [Line2D a b d e]"
  by (simp add: extract_edge_def line_curve_def Let_def)

lemma full_circle_edge:
  "extract_edge (circle_curve (a, b, c) r 0 (2 * pi)) Z_axis 1 = [Circle2D a b r]"
  using pi_ge_two by (simp add: extract_edge_def circle_curve_def scale2_def Let_def)

lemma square_wire_edges:
  "extract_edges_from_wire (square_wire z) Z_axis 1 =
     [Line2D 0 0 2 0, Line2D 2 0 2 2, Line2D 2 2 0 2, Line2D 0 2 0 0]"
  by (simp add: square_wire_def line_curve_edge)

lemma square_is_rectangle:
  "is_rectangle [Line2D 0 0 2 0, Line2D 2 0 2 2, Line2D 2 2 0 2, Line2D 0 2 0 0]"
  by (simp add: is_rectangle_iff rect_dot_def)

lemma plate_top_outer: "outer_edges_of plate_top Z_axis 1 =
     [Line2D 0 0 2 0, Line2D 2 0 2 2, Line2D 2 2 0 2, Line2D 0 2 0 0]"
  by (simp add: outer_edges_of_def plate_top_def square_wire_edges)

lemma plate_top_all: "all_edges_of plate_top Z_axis 1 =
     [Line2D 0 0 2 0, Line2D 2 0 2 2, Line2D 2 2 0 2, Line2D 0 2 0 0, Circle2D 1 1 (1 / 2)]"
  by (simp add: all_edges_of_def outer_edges_of_def inner_wires_edges_of_def plate_top_def
      square_wire_edges full_circle_edge)

lemma plate_axes: "axes_sorted plate_solid = [Z_axis, X_axis, Y_axis]"
  by (simp add: axes_sorted_def plate_solid_def)

lemma plate_best_face: "best_face plate_solid Z_axis = Some plate_top"
  by (simp add: best_face_def candidate_faces_def plate_solid_def plate_top_def
      plate_bottom_def plate_side_def plate_bore_def)

lemma plate_top_inner: "inner_wires_edges_of plate_top Z_axis 1 = [[Circle2D 1 1 (1 / 2)]]"
  by (simp add: inner_wires_edges_of_def plate_top_def full_circle_edge)

text \<open>
  C2 as stated fails: the outer boundary of the plate's top face is a perfect rectangle,
  the face is accepted all the same because it has a hole; without the hole it is
  rejected.
\<close>

theorem hole_defeats_rejection_counterexample:
  "is_rectangle (outer_edges_of plate_top Z_axis 1) \<and>
   best_face plate_solid Z_axis = Some plate_top \<and>
   try_axes plate_solid 1 (axes_sorted plate_solid) =
     Some (profile_of_face plate_solid plate_top Z_axis 1) \<and>
   is_rectangle (all_edges_of (plate_top\<lparr>innerWires := []\<rparr>) Z_axis 1)"
proof -
  have a: "is_rectangle (outer_edges_of plate_top Z_axis 1)"
    by (simp only: plate_top_outer square_is_rectangle)
  have b: "\<not> is_rectangle (all_edges_of plate_top Z_axis 1)"
    by (simp add: plate_top_all is_rectangle_iff)
  have c: "all_edges_of (plate_top\<lparr>innerWires := []\<rparr>) Z_axis 1 =
      outer_edges_of plate_top Z_axis 1"
    by (simp add: all_edges_of_def outer_edges_of_def inner_wires_edges_of_def)
  show ?thesis using a b c by (simp add: plate_axes plate_best_face)
qed

text \<open>
  C2 (as the code has it). A trial axis with best face \<open>bf\<close> is rejected exactly when the
  flattened list of all extracted edges, outer boundary followed by every hole, consists
  of exactly four lines whose cyclically adjacent pairs have a normalised dot product of
  at most 0.05 in absolute value.
\<close>

theorem rectangle_rejection:
  assumes "best_face sh ax = Some bf"
  shows "try_axes sh u (ax # rest) =
     (if (\<exists>a b c d. outer_edges_of bf ax u @ concat (inner_wires_edges_of bf ax u) = [a, b, c, d] \<and>
            isLine2D a \<and> isLine2D b \<and> isLine2D c \<and> isLine2D d \<and>
            \<bar>rect_dot a b\<bar> \<le> 0.05 \<and> \<bar>rect_dot b c\<bar> \<le> 0.05 \<and>
            \<bar>rect_dot c d\<bar> \<le> 0.05 \<and> \<bar>rect_dot d a\<bar> \<le> 0.05)
      then try_axes sh u rest
      else Some (profile_of_face sh bf ax u))"
  using assms is_rectangle_iff [of "all_edges_of bf ax u"]
  by (simp add: all_edges_of_def)

theorem rectangle_rejection_witness:
  "best_face plate_solid Z_axis = Some plate_top \<and>
   try_axes plate_solid 1 [Z_axis, X_axis, Y_axis] =
     Some (profile_of_face plate_solid plate_top Z_axis 1)"
  using rectangle_rejection [OF plate_best_face, of 1 "[X_axis, Y_axis]"]
  by (simp add: plate_best_face plate_top_outer plate_top_inner)

lemma try_axes_find:
  "try_axes sh u as =
     (case find (axis_accepted sh u) as of
        None \<Rightarrow> None
      | Some ax \<Rightarrow> map_option (\<lambda>bf. profile_of_face sh bf ax u) (best_face sh ax))"
  by (induction as) (auto simp: axis_accepted_def split: option.splits)

lemma axes_sorted_sorted: "sorted (map (extents sh) (axes_sorted sh))"
  by (simp add: axes_sorted_def del: sort_key_simps)

lemma axes_sorted_stable:
  "filter (\<lambda>a. extents sh a = k) (axes_sorted sh) =
   filter (\<lambda>a. extents sh a = k) [X_axis, Y_axis, Z_axis]"
  unfolding axes_sorted_def by (rule sort_key_stable)

lemma axes_sorted_distinct: "distinct (axes_sorted sh)"
  by (simp add: axes_sorted_def del: sort_key_simps)

lemma try_axes_first:
  assumes i: "i < length as" and acc: "axis_accepted sh u (as ! i)"
    and before: "\<forall>j<i. \<not> axis_accepted sh u (as ! j)"
    and bf: "best_face sh (as ! i) = Some bf"
  shows "try_axes sh u as = Some (profile_of_face sh bf (as ! i) u)"
proof -
  have "find (axis_accepted sh u) as = Some (as ! i)"
    using i acc before by (auto simp: find_Some_iff)
  then show ?thesis using bf by (simp add: try_axes_find)
qed

text \<open>
  C8. The axes are tried in ascending order of extent, axes of equal extent in the order
  X, Y, Z (the sort is stable), and the profile returned is that of the first axis in this
  order which has a matching planar face and whose extracted edges are not rejected as a
  rectangle.
\<close>

theorem axis_selection_order:
  "sorted (map (extents sh) (axes_sorted sh)) \<and>
   distinct (axes_sorted sh) \<and> set (axes_sorted sh) = {X_axis, Y_axis, Z_axis} \<and>
   (\<forall>k. filter (\<lambda>a. extents sh a = k) (axes_sorted sh) =
        filter (\<lambda>a. extents sh a = k) [X_axis, Y_axis, Z_axis]) \<and>
   (\<forall>i bf. i < 3 \<and> best_face sh (axes_sorted sh ! i) = Some bf \<and>
        \<not> is_rectangle (all_edges_of bf (axes_sorted sh ! i) u) \<and>
        (\<forall>j<i. \<not> axis_accepted sh u (axes_sorted sh ! j)) \<longrightarrow>
        extract_profile sh u = Inr (profile_of_face sh bf (axes_sorted sh ! i) u))"
proof -
  have len: "length (axes_sorted sh) = 3" by (simp add: axes_sorted_def)
  have set: "set (axes_sorted sh) = {X_axis, Y_axis, Z_axis}"
    by (auto simp: axes_sorted_def)
  have sel: "extract_profile sh u = Inr (profile_of_face sh bf (axes_sorted sh ! i) u)"
    if "i < 3" "best_face sh (axes_sorted sh ! i) = Some bf"
      "\<not> is_rectangle (all_edges_of bf (axes_sorted sh ! i) u)"
      "\<forall>j<i. \<not> axis_accepted sh u (axes_sorted sh ! j)" for i bf
  proof -
    have "axis_accepted sh u (axes_sorted sh ! i)"
      using that(2,3) by (simp add: axis_accepted_def)
    then have "try_axes sh u (axes_sorted sh) = Some (profile_of_face sh bf (axes_sorted sh ! i) u)"
      using that len by (intro try_axes_first) auto
    then show ?thesis by (simp add: extract_profile_def)
  qed
  show ?thesis
    using axes_sorted_sorted axes_sorted_distinct set axes_sorted_stable sel by blast
qed

lemma line_curve_edge_any:
  "extract_edge (line_curve p q) ax 1 =
     [Line2D (fst (drop_axis p ax)) (snd (drop_axis p ax))
             (fst (drop_axis q ax)) (snd (drop_axis q ax))]"
  by (cases p; cases q; cases ax) (simp_all add: extract_edge_def line_curve_def Let_def)

lemma L_axes: "axes_sorted L_solid = [X_axis, Y_axis, Z_axis]"
  by (simp add: axes_sorted_def L_solid_def)

lemma L_best_X: "best_face L_solid X_axis = Some (side_face (-1, 0, 0) 15 (0, 3) (0, 0) 5)"
  by (simp add: best_face_def candidate_faces_def L_solid_def L_cap_def side_face_def)

lemma L_best_Y: "best_face L_solid Y_axis = Some (side_face (0, -1, 0) 15 (0, 0) (3, 0) 5)"
  by (simp add: best_face_def candidate_faces_def L_solid_def L_cap_def side_face_def)

lemma L_best_Z: "best_face L_solid Z_axis = Some (L_cap 5 (0, 0, 1))"
  by (simp add: best_face_def candidate_faces_def L_solid_def L_cap_def side_face_def)

lemma L_side_X_edges:
  "all_edges_of (side_face (-1, 0, 0) 15 (0, 3) (0, 0) 5) X_axis 1 =
     [Line2D 3 0 0 0, Line2D 0 0 0 5, Line2D 0 5 3 5, Line2D 3 5 3 0]"
  by (simp add: all_edges_of_def outer_edges_of_def inner_wires_edges_of_def side_face_def
      line_curve_edge_any)

lemma L_side_Y_edges:
  "all_edges_of (side_face (0, -1, 0) 15 (0, 0) (3, 0) 5) Y_axis 1 =
     [Line2D 0 0 3 0, Line2D 3 0 3 5, Line2D 3 5 0 5, Line2D 0 5 0 0]"
  by (simp add: all_edges_of_def outer_edges_of_def inner_wires_edges_of_def side_face_def
      line_curve_edge_any)

lemma L_cap_edges:
  "all_edges_of (L_cap 5 (0, 0, 1)) Z_axis 1 =
     [Line2D 0 0 3 0, Line2D 3 0 3 1, Line2D 3 1 1 1, Line2D 1 1 1 3, Line2D 1 3 0 3,
      Line2D 0 3 0 0]"
  by (simp add: all_edges_of_def outer_edges_of_def inner_wires_edges_of_def L_cap_def
      line_curve_edge_any)

lemma L_reject_X: "\<not> axis_accepted L_solid 1 X_axis"
  by (simp add: axis_accepted_def L_best_X L_side_X_edges is_rectangle_iff rect_dot_def)

lemma L_reject_Y: "\<not> axis_accepted L_solid 1 Y_axis"
  by (simp add: axis_accepted_def L_best_Y L_side_Y_edges is_rectangle_iff rect_dot_def)

theorem axis_selection_order_witness:
  "axes_sorted L_solid = [X_axis, Y_axis, Z_axis] \<and>
   \<not> axis_accepted L_solid 1 X_axis \<and> \<not> axis_accepted L_solid 1 Y_axis \<and>
   extract_profile L_solid 1 = Inr (profile_of_face L_solid (L_cap 5 (0, 0, 1)) Z_axis 1)"
proof -
  have b: "\<forall>j<2. \<not> axis_accepted L_solid 1 (axes_sorted L_solid ! j)"
    using L_reject_X L_reject_Y by (simp add: L_axes less_Suc_eq numeral_2_eq_2)
  have c: "\<not> is_rectangle (all_edges_of (L_cap 5 (0, 0, 1)) (axes_sorted L_solid ! 2) 1)"
    by (simp add: L_axes L_cap_edges is_rectangle_iff)
  have d: "best_face L_solid (axes_sorted L_solid ! 2) = Some (L_cap 5 (0, 0, 1))"
    by (simp add: L_axes L_best_Z)
  from axis_selection_order [of L_solid 1] b c d
  have "extract_profile L_solid 1 =
      Inr (profile_of_face L_solid (L_cap 5 (0, 0, 1)) (axes_sorted L_solid ! 2) 1)"
    by (metis (no_types, lifting) numeral_less_iff semiring_norm(79) less_numeral_extra(1)
        lessI numeral_3_eq_3 numeral_2_eq_2)
  then show ?thesis using L_reject_X L_reject_Y by (simp add: L_axes)
qed

section \<open>Properties of the curve classifier\<close>

lemma py_fmod_range: "0 < b \<Longrightarrow> 0 \<le> py_fmod a b \<and> py_fmod a b < b"
proof -
  assume b: "0 < b"
  have l: "of_int \<lfloor>a / b\<rfloor> * b \<le> a" using b by (rule floor_divide_lower)
  have u: "a < (of_int \<lfloor>a / b\<rfloor> + 1) * b" using b by (rule floor_divide_upper)
  from l u show ?thesis by (simp add: py_fmod_def algebra_simps)
qed

lemma normalize_angle_range: "0 \<le> normalize_angle a \<and> normalize_angle a < 360"
  using py_fmod_range [of 360 a] by (simp add: normalize_angle_def Let_def)

lemma not_degenerate_of_full:
  assumes "\<bar>l - f - 2 * pi\<bar> < 1 / 10 ^ 6"
  shows "\<not> \<bar>l - f\<bar> < 1 / 1000"
proof -
  have "\<bar>l - f - 2 * pi\<bar> < 1" using assms by simp
  then show ?thesis using pi_ge_two by (simp add: abs_less_iff)
qed

text \<open>
  C6. A circular curve whose parametric span is within 1e-6 of a full turn is emitted as
  one Circle2D with the projected and scaled centre and the scaled radius, and as
  nothing else.
\<close>

theorem full_circle_gives_Circle2D:
  assumes "GetType e = GeomAbs_Circle"
    and "\<bar>LastParameter e - FirstParameter e - 2 * pi\<bar> < 1 / 10 ^ 6"
  shows "extract_edge e ax scale =
           [Circle2D (fst (drop_axis (Circle_Location e) ax) * scale)
                     (snd (drop_axis (Circle_Location e) ax) * scale)
                     (Circle_Radius e * scale)]"
  using assms not_degenerate_of_full [OF assms(2)]
  by (simp add: extract_edge_def Let_def scale2_def case_prod_beta)

theorem full_circle_gives_Circle2D_witness:
  "GetType (circle_curve (1, 1, 1) (1 / 2) 0 (2 * pi)) = GeomAbs_Circle \<and>
   extract_edges_from_wire [circle_curve (1, 1, 1) (1 / 2) 0 (2 * pi)] Z_axis 1 =
     [Circle2D 1 1 (1 / 2)]"
  using full_circle_gives_Circle2D [of "circle_curve (1, 1, 1) (1 / 2) 0 (2 * pi)" Z_axis 1]
  by (simp add: circle_curve_def)

lemma extract_edge_arc_sweep:
  assumes "Arc2D cx cy r s w x1 y1 x2 y2 \<in> set (extract_edge e ax scale)"
  shows "0 < \<bar>w\<bar> \<and> \<bar>w\<bar> \<le> 360"
proof -
  define sd where "sd = degrees (atan2
      (snd (scale2 (drop_axis (Value e (FirstParameter e)) ax) scale) -
         snd (scale2 (drop_axis (Circle_Location e) ax) scale))
      (fst (scale2 (drop_axis (Value e (FirstParameter e)) ax) scale) -
         fst (scale2 (drop_axis (Circle_Location e) ax) scale)))"
  define ed where "ed = degrees (atan2
      (snd (scale2 (drop_axis (Value e (LastParameter e)) ax) scale) -
         snd (scale2 (drop_axis (Circle_Location e) ax) scale))
      (fst (scale2 (drop_axis (Value e (LastParameter e)) ax) scale) -
         fst (scale2 (drop_axis (Circle_Location e) ax) scale)))"
  define md where "md = degrees (atan2
      (snd (scale2 (drop_axis (Value e ((FirstParameter e + LastParameter e) / 2)) ax) scale) -
         snd (scale2 (drop_axis (Circle_Location e) ax) scale))
      (fst (scale2 (drop_axis (Value e ((FirstParameter e + LastParameter e) / 2)) ax) scale) -
         fst (scale2 (drop_axis (Circle_Location e) ax) scale)))"
  define ccw where "ccw = (if normalize_angle (ed - sd) = 0 then 360 else normalize_angle (ed - sd))"
  have ccw: "0 < ccw \<and> ccw \<le> 360"
    using normalize_angle_range [of "ed - sd"] by (auto simp: ccw_def)
  have mid: "normalize_angle (md - sd) < 360"
    using normalize_angle_range [of "md - sd"] by simp
  from assms have w: "w = (if normalize_angle (md - sd) \<le> ccw + 0.5 then ccw else ccw - 360)"
    by (auto simp: extract_edge_def Let_def sd_def ed_def md_def ccw_def case_prod_beta
        split: if_splits)
  show ?thesis
  proof (cases "normalize_angle (md - sd) \<le> ccw + 0.5")
    case True
    then show ?thesis using w ccw by simp
  next
    case False
    then have "ccw < 360" using mid by linarith
    then show ?thesis using w ccw False by simp
  qed
qed

lemma extract_wire_arc_sweep:
  "Arc2D cx cy r s w x1 y1 x2 y2 \<in> set (extract_edges_from_wire wire ax scale) \<Longrightarrow>
   0 < \<bar>w\<bar> \<and> \<bar>w\<bar> \<le> 360"
  by (induction wire) (auto dest: extract_edge_arc_sweep)

lemma zero_ccw_sweep:
  assumes "GetType e = GeomAbs_Circle"
    and "\<not> \<bar>LastParameter e - FirstParameter e\<bar> < 1 / 1000"
    and "\<not> \<bar>LastParameter e - FirstParameter e - 2 * pi\<bar> < 1 / 10 ^ 6"
    and "normalize_angle (edge_angle_deg e (LastParameter e) ax scale -
            edge_angle_deg e (FirstParameter e) ax scale) = 0"
  shows "map arc_sweep_deg (extract_edge e ax scale) = [360] \<and>
         map isArc2D (extract_edge e ax scale) = [True]"
proof -
  have "normalize_angle x < 360" for x using normalize_angle_range [of x] by simp
  then have "normalize_angle x \<le> 360 + 0.5" for x using less_imp_le [of "normalize_angle x" 360] by simp
  then show ?thesis using assms
    by (simp add: extract_edge_def Let_def edge_angle_deg_def case_prod_beta)
qed

text \<open>
  C7. Every Arc2D that the extraction of a wire emits has a sweep of magnitude in
  (0, 360], and a counter-clockwise sweep that computes to 0 is emitted as 360.
\<close>

theorem arc_sweep_range:
  "(\<forall>cx cy r s w x1 y1 x2 y2.
      Arc2D cx cy r s w x1 y1 x2 y2 \<in> set (extract_edges_from_wire wire ax scale) \<longrightarrow>
      0 < \<bar>w\<bar> \<and> \<bar>w\<bar> \<le> 360) \<and>
   (GetType e = GeomAbs_Circle \<and>
    \<not> \<bar>LastParameter e - FirstParameter e\<bar> < 1 / 1000 \<and>
    \<not> \<bar>LastParameter e - FirstParameter e - 2 * pi\<bar> < 1 / 10 ^ 6 \<and>
    normalize_angle (edge_angle_deg e (LastParameter e) ax scale -
                     edge_angle_deg e (FirstParameter e) ax scale) = 0 \<longrightarrow>
    map arc_sweep_deg (extract_edge e ax scale) = [360] \<and>
    map isArc2D (extract_edge e ax scale) = [True])"
  using extract_wire_arc_sweep zero_ccw_sweep by blast

lemma atan2_0_1: "atan2 0 1 = 0" by (simp add: atan2_def)
lemma atan2_0_m1: "atan2 0 (-1) = pi" by (simp add: atan2_def)
lemma atan2_1_0: "atan2 1 0 = pi / 2" by (simp add: atan2_def)
lemma atan2_m1_0: "atan2 (-1) 0 = - (pi / 2)" by (simp add: atan2_def)

lemma degrees_pi: "degrees pi = 180" "degrees (pi / 2) = 90" "degrees 0 = 0"
  "degrees (- (pi / 2)) = -90"
  by (simp_all add: degrees_def)

lemma normalize_angle_small: "0 \<le> a \<Longrightarrow> a < 360 \<Longrightarrow> normalize_angle a = a"
proof -
  assume "0 \<le> a" "a < 360"
  then have "\<lfloor>a / 360\<rfloor> = 0" by (simp add: floor_eq_iff)
  then show ?thesis using \<open>0 \<le> a\<close> by (simp add: normalize_angle_def py_fmod_def)
qed

lemma half_turn_edge:
  "extract_edge (circle_curve (0, 0, 0) 1 0 pi) Z_axis 1 = [Arc2D 0 0 1 0 180 1 0 (-1) 0]"
  using pi_ge_two
  by (simp add: extract_edge_def circle_curve_def Let_def scale2_def atan2_0_1 atan2_0_m1
      atan2_1_0 degrees_pi normalize_angle_small)

lemma reversed_turn_edge:
  "extract_edge (circle_curve (0, 0, 0) 1 (2 * pi) 0) Z_axis 1 =
     [Arc2D 0 0 1 0 360 1 0 1 0]"
  using pi_ge_two
  by (simp add: extract_edge_def circle_curve_def Let_def scale2_def atan2_0_1 atan2_0_m1
      atan2_1_0 degrees_pi normalize_angle_small)

theorem arc_sweep_range_witness:
  "Arc2D 0 0 1 0 180 1 0 (-1) 0 \<in>
     set (extract_edges_from_wire [circle_curve (0, 0, 0) 1 0 pi] Z_axis 1) \<and>
   GetType (circle_curve (0, 0, 0) 1 (2 * pi) 0) = GeomAbs_Circle \<and>
   normalize_angle (edge_angle_deg (circle_curve (0, 0, 0) 1 (2 * pi) 0) 0 Z_axis 1 -
                    edge_angle_deg (circle_curve (0, 0, 0) 1 (2 * pi) 0) (2 * pi) Z_axis 1) = 0 \<and>
   map arc_sweep_deg (extract_edge (circle_curve (0, 0, 0) 1 (2 * pi) 0) Z_axis 1) = [360] \<and>
   0 < \<bar>180 :: real\<bar> \<and> \<bar>180 :: real\<bar> \<le> 360"
proof -
  let ?rev = "circle_curve (0, 0, 0) 1 (2 * pi) 0"
  have a: "Arc2D 0 0 1 0 180 1 0 (-1) 0 \<in>
     set (extract_edges_from_wire [circle_curve (0, 0, 0) 1 0 pi] Z_axis 1)"
    by (simp add: half_turn_edge)
  have b: "GetType ?rev = GeomAbs_Circle"
    "\<not> \<bar>LastParameter ?rev - FirstParameter ?rev\<bar> < 1 / 1000"
    "\<not> \<bar>LastParameter ?rev - FirstParameter ?rev - 2 * pi\<bar> < 1 / 10 ^ 6"
    using pi_ge_two by (simp_all add: circle_curve_def)
  have c: "normalize_angle (edge_angle_deg ?rev 0 Z_axis 1 -
                    edge_angle_deg ?rev (2 * pi) Z_axis 1) = 0"
    by (simp add: edge_angle_deg_def circle_curve_def scale2_def atan2_0_1 degrees_pi
        normalize_angle_small)
  have c': "normalize_angle (edge_angle_deg ?rev (LastParameter ?rev) Z_axis 1 -
                    edge_angle_deg ?rev (FirstParameter ?rev) Z_axis 1) = 0"
    using c by (simp add: circle_curve_def)
  note t = arc_sweep_range [of "[circle_curve (0, 0, 0) 1 0 pi]" Z_axis 1 ?rev]
  from t a have d: "0 < \<bar>180 :: real\<bar> \<and> \<bar>180 :: real\<bar> \<le> 360" by blast
  from t b c' have e: "map arc_sweep_deg (extract_edge ?rev Z_axis 1) = [360]" by blast
  from a b(1) c d e show ?thesis by blast
qed

section \<open>Properties of optimize_rotation\<close>

lemma length_edge_points_rotate:
  "length (edge_points (rotate_edge e c s)) = length (edge_points e)"
  by (cases e) (simp_all add: case_prod_beta Let_def)

lemma length_sample_points_rotate:
  "length (sample_points (map (\<lambda>e. rotate_edge e c s) es)) = length (sample_points es)"
  by (induction es) (simp_all add: sample_points_def length_edge_points_rotate)

lemma sample_points_rotate_Nil_iff:
  "sample_points (map (\<lambda>e. rotate_edge e c s) es) = [] \<longleftrightarrow> sample_points es = []"
  using length_sample_points_rotate [of c s es] by (metis length_0_conv)

lemma py_min_ok: "xs \<noteq> [] \<Longrightarrow> py_min xs = Inr (Min (set xs))"
  by (cases xs) (simp_all add: Min.set_eq_fold [symmetric])

lemma py_max_ok: "xs \<noteq> [] \<Longrightarrow> py_max xs = Inr (Max (set xs))"
  by (cases xs) (simp_all add: Max.set_eq_fold [symmetric])

lemma optimize_rotation_no_points:
  assumes "sample_points (edges p) = []"
  shows "optimize_rotation mrr p = Inl ValueError"
proof -
  have "find_optimal_angle mrr [] = Inr 0" by (simp add: find_optimal_angle_def)
  moreover have "sample_points (map (\<lambda>e. rotate_edge e c s) (edges p)) = []" for c s
    using assms by (simp add: sample_points_rotate_Nil_iff)
  ultimately show ?thesis using assms by (simp add: optimize_rotation_def Let_def)
qed

lemma optimize_rotation_returns:
  assumes ne: "sample_points (edges p) \<noteq> []"
    and ang: "find_optimal_angle mrr (sample_points (edges p)) = Inr a"
  shows "\<exists>out. optimize_rotation mrr p = Inr out \<and> rotation_deg out = - a \<and>
           opt_thickness_inches out = thickness_inches p"
proof -
  let ?c = "cos (radians (- a))" and ?s = "sin (radians (- a))"
  let ?r = "sample_points (map (\<lambda>e. rotate_edge e ?c ?s) (edges p))"
  have "?r \<noteq> []" using ne by (simp add: sample_points_rotate_Nil_iff)
  then have "map fst ?r \<noteq> []" "map snd ?r \<noteq> []" by simp_all
  then show ?thesis using ang
    by (simp add: optimize_rotation_def Let_def py_min_ok py_max_ok)
qed

lemma optimize_rotation_few_points:
  assumes "sample_points (edges p) \<noteq> []" and "length (sample_points (edges p)) < 3"
  shows "\<exists>out. optimize_rotation mrr p = Inr out \<and> rotation_deg out = 0"
proof -
  have "find_optimal_angle mrr (sample_points (edges p)) = Inr 0"
    using assms(2) by (simp add: find_optimal_angle_def)
  from optimize_rotation_returns [OF assms(1) this] show ?thesis by auto
qed

lemma single_line_ok:
  "\<exists>out. optimize_rotation mrr single_line_profile = Inr out \<and> rotation_deg out = 0"
  by (rule optimize_rotation_few_points) (simp_all add: single_line_profile_def sample_points_def)

text \<open>
  C3. A profile with an empty edge list gives no sampled point; the angle is taken as 0,
  but then \<^verbatim>\<open>min(xs)\<close> is called on an empty list and \<^verbatim>\<open>optimize_rotation\<close> raises
  ValueError instead of returning an OptimizedProfile.
\<close>

theorem optimize_rotation_empty_raises:
  "length (sample_points (edges empty_profile)) = 0 \<and>
   find_optimal_angle mrr (sample_points (edges empty_profile)) = Inr 0 \<and>
   optimize_rotation mrr empty_profile = Inl ValueError"
proof -
  have e: "sample_points (edges empty_profile) = []"
    by (simp add: empty_profile_def sample_points_def)
  then show ?thesis
    using optimize_rotation_no_points [OF e] by (simp add: find_optimal_angle_def)
qed

lemma atan2_range: "- pi < atan2 y x \<and> atan2 y x \<le> pi"
proof -
  have b: "- (pi / 2) < arctan (y / x)" "arctan (y / x) < pi / 2"
    by (rule arctan_lbound, rule arctan_ubound)
  have "x < 0 \<Longrightarrow> 0 \<le> y \<Longrightarrow> arctan (y / x) \<le> 0"
    by (simp add: divide_nonneg_neg arctan_le_zero_iff)
  moreover have "x < 0 \<Longrightarrow> y < 0 \<Longrightarrow> 0 < arctan (y / x)"
    by (simp add: divide_neg_neg zero_less_arctan_iff)
  ultimately show ?thesis using b pi_gt_zero by (auto simp: atan2_def)
qed

lemma sqrt_unit:
  assumes "x\<^sup>2 + y\<^sup>2 = 1" and "x \<noteq> 0"
  shows "sqrt (1 + (y / x)\<^sup>2) = 1 / \<bar>x\<bar>"
proof -
  have "1 + (y / x)\<^sup>2 = (x\<^sup>2 + y\<^sup>2) / x\<^sup>2"
    using assms(2) by (simp add: power_divide add_divide_distrib)
  also have "\<dots> = (1 / \<bar>x\<bar>)\<^sup>2" using assms(1) by (simp add: power_divide)
  finally show ?thesis by (simp add: real_sqrt_abs del: abs_divide)
qed

lemma atan2_unit:
  assumes u: "x\<^sup>2 + y\<^sup>2 = 1"
  shows "cos (atan2 y x) = x \<and> sin (atan2 y x) = y"
proof (cases "x = 0")
  case True
  then have "y\<^sup>2 = 1" using u by simp
  then have "y = 1 \<or> y = -1" by (simp add: power2_eq_1_iff)
  then show ?thesis using True by (auto simp: atan2_def)
next
  case False
  have s: "sqrt (1 + (y / x)\<^sup>2) = 1 / \<bar>x\<bar>" using u False by (rule sqrt_unit)
  have c: "cos (arctan (y / x)) = \<bar>x\<bar>" by (simp add: cos_arctan s)
  have sn: "sin (arctan (y / x)) = (y / x) * \<bar>x\<bar>" by (simp add: sin_arctan s)
  show ?thesis
  proof (cases "0 < x")
    case True
    then show ?thesis using c sn by (simp add: atan2_def)
  next
    case neg: False
    then have "x < 0" using False by simp
    then show ?thesis using c sn by (auto simp: atan2_def)
  qed
qed

lemma atan2_sin_cos: "\<exists>k::int. atan2 (sin r) (cos r) = r + 2 * pi * of_int k"
proof -
  have "cos (atan2 (sin r) (cos r)) = cos r \<and> sin (atan2 (sin r) (cos r)) = sin r"
    by (rule atan2_unit) (simp add: add.commute)
  then show ?thesis using sin_cos_eq_iff [of "atan2 (sin r) (cos r)" r] by simp
qed

lemma atan2_sin_cos_principal:
  assumes "- pi < r" and "r \<le> pi"
  shows "atan2 (sin r) (cos r) = r"
proof -
  obtain k :: int where k: "atan2 (sin r) (cos r) = r + 2 * pi * of_int k"
    using atan2_sin_cos by blast
  have rg: "- pi < r + 2 * pi * of_int k" "r + 2 * pi * of_int k \<le> pi"
    using atan2_range [of "sin r" "cos r"] k by simp_all
  have "k = 0"
  proof (rule ccontr)
    assume "k \<noteq> 0"
    then consider "k \<ge> 1" | "k \<le> -1" by linarith
    then show False
    proof cases
      case 1
      then have "2 * pi * of_int k \<ge> 2 * pi" using pi_gt_zero by simp
      then show False using rg assms by linarith
    next
      case 2
      then have "(of_int k :: real) \<le> -1" by (metis of_int_le_iff of_int_minus of_int_1)
      then have "2 * pi * of_int k \<le> - (2 * pi)" using pi_gt_zero
        by (metis mult_le_cancel_left_pos mult_minus_right mult.right_neutral mult_pos_pos zero_less_numeral)
      then show False using rg assms by linarith
    qed
  qed
  then show ?thesis using k by simp
qed

lemma degrees_radians: "degrees (radians d) = d" "radians (degrees r) = r"
  by (simp_all add: degrees_def radians_def)

lemma rotation_offset_congruent:
  "\<exists>k::int. degrees (atan2 (sin (radians phi)) (cos (radians phi))) = phi + 360 * of_int k"
proof -
  obtain k :: int where
    "atan2 (sin (radians phi)) (cos (radians phi)) = radians phi + 2 * pi * of_int k"
    using atan2_sin_cos by blast
  then have "degrees (atan2 (sin (radians phi)) (cos (radians phi))) = phi + 360 * of_int k"
    by (simp add: degrees_def radians_def field_simps)
  then show ?thesis by blast
qed

lemma rotation_offset_range:
  "- 180 < degrees (atan2 y x) \<and> degrees (atan2 y x) \<le> 180"
  using atan2_range [of y x] pi_gt_zero by (simp add: degrees_def field_simps)

lemma rotation_offset_principal:
  assumes "- 180 < phi" and "phi \<le> 180"
  shows "degrees (atan2 (sin (radians phi)) (cos (radians phi))) = phi"
proof -
  have a: "- 1 < phi / 180" "phi / 180 \<le> 1" using assms by simp_all
  have "- 1 * pi < phi / 180 * pi" using a(1) pi_gt_zero by (rule mult_strict_right_mono)
  moreover have "phi / 180 * pi \<le> 1 * pi" using a(2) pi_ge_zero by (rule mult_right_mono)
  ultimately have "- pi < radians phi" "radians phi \<le> pi"
    by (simp_all add: radians_def)
  then have "atan2 (sin (radians phi)) (cos (radians phi)) = radians phi"
    by (rule atan2_sin_cos_principal)
  then show ?thesis by (simp add: degrees_radians)
qed

text \<open>
  C4 (as the code has it). Rotating an arc by \<open>phi\<close> degrees keeps its signed sweep and adds
  to its start angle the representative of \<open>phi\<close> in (-180, 180]; the new start angle is
  congruent to \<open>start + phi\<close> modulo 360 and equals \<open>start + phi\<close> when \<open>phi\<close> itself lies in
  (-180, 180]. It is not reduced into [0, 360).
\<close>

theorem rotate_arc_start_and_sweep:
  "arc_sweep_deg (rotate_edge (Arc2D cx cy r s w x1 y1 x2 y2)
      (cos (radians phi)) (sin (radians phi))) = w \<and>
   isArc2D (rotate_edge (Arc2D cx cy r s w x1 y1 x2 y2)
      (cos (radians phi)) (sin (radians phi))) \<and>
   arc_start_deg (rotate_edge (Arc2D cx cy r s w x1 y1 x2 y2)
      (cos (radians phi)) (sin (radians phi))) =
     s + degrees (atan2 (sin (radians phi)) (cos (radians phi))) \<and>
   - 180 < degrees (atan2 (sin (radians phi)) (cos (radians phi))) \<and>
   degrees (atan2 (sin (radians phi)) (cos (radians phi))) \<le> 180 \<and>
   (\<exists>k::int. arc_start_deg (rotate_edge (Arc2D cx cy r s w x1 y1 x2 y2)
      (cos (radians phi)) (sin (radians phi))) = s + phi + 360 * of_int k) \<and>
   (- 180 < phi \<and> phi \<le> 180 \<longrightarrow>
      arc_start_deg (rotate_edge (Arc2D cx cy r s w x1 y1 x2 y2)
        (cos (radians phi)) (sin (radians phi))) = s + phi)"
proof -
  obtain k :: int where
    k: "degrees (atan2 (sin (radians phi)) (cos (radians phi))) = phi + 360 * of_int k"
    using rotation_offset_congruent by blast
  have st: "arc_start_deg (rotate_edge (Arc2D cx cy r s w x1 y1 x2 y2)
      (cos (radians phi)) (sin (radians phi))) =
     s + degrees (atan2 (sin (radians phi)) (cos (radians phi)))"
    by (simp add: case_prod_beta Let_def)
  have "arc_start_deg (rotate_edge (Arc2D cx cy r s w x1 y1 x2 y2)
      (cos (radians phi)) (sin (radians phi))) = s + phi + 360 * of_int k"
    unfolding st k by simp
  then have ex: "\<exists>k::int. arc_start_deg (rotate_edge (Arc2D cx cy r s w x1 y1 x2 y2)
      (cos (radians phi)) (sin (radians phi))) = s + phi + 360 * of_int k" by blast
  have pr: "- 180 < phi \<and> phi \<le> 180 \<longrightarrow>
      arc_start_deg (rotate_edge (Arc2D cx cy r s w x1 y1 x2 y2)
        (cos (radians phi)) (sin (radians phi))) = s + phi"
    unfolding st by (simp add: rotation_offset_principal)
  have sw: "arc_sweep_deg (rotate_edge (Arc2D cx cy r s w x1 y1 x2 y2)
      (cos (radians phi)) (sin (radians phi))) = w"
    "isArc2D (rotate_edge (Arc2D cx cy r s w x1 y1 x2 y2)
      (cos (radians phi)) (sin (radians phi)))"
    by (simp_all add: case_prod_beta Let_def)
  show ?thesis using sw st ex pr rotation_offset_range by blast
qed

lemma radians_values: "radians (-90) = - (pi / 2)" "radians 90 = pi / 2" "radians 180 = pi"
  "radians 0 = 0"
  by (simp_all add: radians_def)

lemma atan2_m1_0': "atan2 (-1) 0 = - (pi / 2)" by (simp add: atan2_def)

lemma degrees_values: "degrees (- (pi / 2)) = -90" by (simp add: degrees_def)

lemma py_fmod_m180: "py_fmod (-180) 360 = 180"
proof -
  have "\<lfloor>(-180 :: real) / 360\<rfloor> = -1" by (simp add: floor_eq_iff)
  then show ?thesis by (simp add: py_fmod_def)
qed

theorem rotate_arc_start_and_sweep_witness:
  "- 180 < (-90 :: real) \<and> (-90 :: real) \<le> 180 \<and>
   arc_start_deg (rotate_edge (Arc2D 0 0 1 (-90) 180 0 (-1) 0 1)
      (cos (radians (-90))) (sin (radians (-90)))) = -90 + -90 \<and>
   arc_sweep_deg (rotate_edge (Arc2D 0 0 1 (-90) 180 0 (-1) 0 1)
      (cos (radians (-90))) (sin (radians (-90)))) = 180"
  using rotate_arc_start_and_sweep [of 0 0 1 "-90" 180 0 "-1" 0 1 "-90"] by simp

text \<open>
  C4 as stated fails: an arc that starts at -90 degrees, rotated by -90 degrees, starts at
  -180 degrees, whereas \<open>(start + phi) mod 360\<close> is 180.
\<close>

theorem rotate_arc_not_reduced_counterexample:
  "rotate_edge (Arc2D 0 0 1 (-90) 180 0 (-1) 0 1) (cos (radians (-90))) (sin (radians (-90))) =
     Arc2D 0 0 1 (-180) 180 (-1) 0 1 0 \<and>
   py_fmod (-90 + -90) 360 = 180"
  using py_fmod_m180
  by (simp add: radians_values rotate_point_def atan2_m1_0' degrees_values)










section \<open>optimize_rotation and the store\<close>

lemma map_h_new:
  "\<forall>r \<in> set rs. r < length h \<Longrightarrow>
   map_h (new_edge_h g) rs h =
     ([length h ..< length h + length rs], h @ map (\<lambda>r. g (h ! r)) rs)"
proof (induction rs arbitrary: h)
  case Nil
  then show ?case by simp
next
  case (Cons r rs)
  let ?h1 = "h @ [g (h ! r)]"
  have v: "\<forall>r' \<in> set rs. r' < length ?h1" using Cons.prems by auto
  have same: "map (\<lambda>r'. g (?h1 ! r')) rs = map (\<lambda>r'. g (h ! r')) rs"
    using Cons.prems by (auto simp: nth_append)
  have u: "[length h ..< length h + length (r # rs)] =
      length h # [length ?h1 ..< length ?h1 + length rs]"
    by (subst upt_conv_Cons) simp_all
  have step: "map_h (new_edge_h g) (r # rs) h =
      (length h # fst (map_h (new_edge_h g) rs ?h1), snd (map_h (new_edge_h g) rs ?h1))"
    by (simp add: new_edge_h_def alloc_def case_prod_beta)
  show ?case unfolding step Cons.IH [OF v] same u by simp
qed

lemma map_wires_h_new:
  "\<forall>w \<in> set ws. \<forall>r \<in> set w. r < length h \<Longrightarrow>
   map_wires_h (new_edge_h g) ws h =
     (fresh_wires (length h) ws, h @ map (\<lambda>r. g (h ! r)) (concat ws))"
proof (induction ws arbitrary: h)
  case Nil
  then show ?case by simp
next
  case (Cons w ws)
  let ?h1 = "h @ map (\<lambda>r. g (h ! r)) w"
  have w: "\<forall>r \<in> set w. r < length h" using Cons.prems by simp
  have v: "\<forall>w' \<in> set ws. \<forall>r \<in> set w'. r < length ?h1"
    using Cons.prems by (simp add: trans_less_add1)
  have same: "map (\<lambda>r. g (?h1 ! r)) (concat ws) = map (\<lambda>r. g (h ! r)) (concat ws)"
    using Cons.prems by (auto simp: nth_append)
  show ?case
    using Cons.IH [OF v] same by (simp add: map_h_new [OF w])
qed

lemma deref_fresh:
  "deref (h @ vs @ k) [length h ..< length h + length vs] = vs"
  by (auto simp: deref_def nth_append intro!: nth_equalityI)

lemma deref_fresh_wires:
  "map (deref (h @ map G (concat ws) @ k)) (fresh_wires (length h) ws) = map (map G) ws"
proof (induction ws arbitrary: h)
  case Nil
  then show ?case by simp
next
  case (Cons w ws)
  have "deref (h @ map G w @ (map G (concat ws) @ k)) [length h ..< length h + length (map G w)]
      = map G w"
    by (rule deref_fresh)
  moreover have "map (deref ((h @ map G w) @ map G (concat ws) @ k))
      (fresh_wires (length (h @ map G w)) ws) = map (map G) ws"
    by (rule Cons.IH)
  ultimately show ?case by simp
qed

lemma fresh_wires_bounds:
  "w \<in> set (fresh_wires n ws) \<Longrightarrow> r \<in> set w \<Longrightarrow> n \<le> r \<and> r < n + length (concat ws)"
proof (induction ws arbitrary: n)
  case Nil
  then show ?case by simp
next
  case (Cons a ws)
  then show ?case by fastforce
qed

lemma deref_old: "\<forall>r \<in> set rs. r < length h \<Longrightarrow> deref (h @ k) rs = deref h rs"
  by (simp add: deref_def nth_append)

lemma map_h_spec:
  assumes "valid_refs h rs"
  shows "\<exists>rs' ext. map_h (new_edge_h g) rs h = (rs', h @ ext) \<and>
           fresh_refs h (h @ ext) rs' \<and>
           (\<forall>k. deref (h @ ext @ k) rs' = map g (deref h rs))"
proof -
  have v: "\<forall>r \<in> set rs. r < length h" using assms by (simp add: valid_refs_def list_all_iff)
  let ?ext = "map (\<lambda>r. g (h ! r)) rs"
  have "map_h (new_edge_h g) rs h = ([length h ..< length h + length rs], h @ ?ext)"
    using v by (rule map_h_new)
  moreover have "fresh_refs h (h @ ?ext) [length h ..< length h + length rs]"
    by (simp add: fresh_refs_def list_all_iff)
  moreover have "deref (h @ ?ext @ k) [length h ..< length h + length rs] = map g (deref h rs)"
    for k
    using deref_fresh [of h ?ext k] by (simp add: deref_def)
  ultimately show ?thesis by blast
qed

lemma map_wires_h_spec:
  assumes "list_all (valid_refs h) ws"
  shows "\<exists>ws' ext. map_wires_h (new_edge_h g) ws h = (ws', h @ ext) \<and>
           list_all (fresh_refs h (h @ ext)) ws' \<and>
           (\<forall>k. map (deref (h @ ext @ k)) ws' = map (map g) (map (deref h) ws))"
proof -
  have v: "\<forall>w \<in> set ws. \<forall>r \<in> set w. r < length h"
    using assms by (simp add: valid_refs_def list_all_iff)
  let ?ext = "map (\<lambda>r. g (h ! r)) (concat ws)"
  have "map_wires_h (new_edge_h g) ws h = (fresh_wires (length h) ws, h @ ?ext)"
    using v by (rule map_wires_h_new)
  moreover have "list_all (fresh_refs h (h @ ?ext)) (fresh_wires (length h) ws)"
    using fresh_wires_bounds [of _ "length h" ws]
    by (auto simp: fresh_refs_def list_all_iff)
  moreover have "map (deref (h @ ?ext @ k)) (fresh_wires (length h) ws) =
      map (map g) (map (deref h) ws)" for k
    using deref_fresh_wires [of h "\<lambda>r. g (h ! r)" ws k] by (simp add: deref_def)
  ultimately show ?thesis by blast
qed

lemma fresh_valid: "fresh_refs h h' rs \<Longrightarrow> valid_refs (h' @ k) rs"
  by (auto simp: fresh_refs_def valid_refs_def list_all_iff)

lemma valid_append: "valid_refs h rs \<Longrightarrow> valid_refs (h @ k) rs"
  by (auto simp: valid_refs_def list_all_iff)

lemma fresh_append: "fresh_refs h h' rs \<Longrightarrow> fresh_refs h (h' @ k) rs"
  by (auto simp: fresh_refs_def list_all_iff)

lemma fresh_prepend: "fresh_refs (h @ k) h' rs \<Longrightarrow> fresh_refs h h' rs"
  by (auto simp: fresh_refs_def list_all_iff)

lemma deref_valid_append: "valid_refs h rs \<Longrightarrow> deref (h @ k) rs = deref h rs"
  by (rule deref_old) (simp add: valid_refs_def list_all_iff)

text \<open>
  C10. Run on a store \<open>h\<close> and a profile whose references are valid in it,
  \<^verbatim>\<open>optimize_rotation\<close> fails exactly as the value-level function does, and otherwise
  leaves every object of \<open>h\<close> as it was (the new store extends \<open>h\<close>), so the input profile
  denotes the same edges, wires, thickness and axis afterwards; every reference in the
  result is to an object allocated during the call, and the result denotes the rotated and
  translated copies that the value-level function computes.
\<close>

theorem optimize_rotation_frame:
  assumes vE: "valid_refs h (r_edges p)" and vW: "list_all (valid_refs h) (r_wires p)"
  shows "case optimize_rotation_h mrr p h of
           Inl err \<Rightarrow> optimize_rotation mrr (deref_profile h p) = Inl err
         | Inr (out, h') \<Rightarrow>
             take (length h) h' = h \<and>
             deref_profile h' p = deref_profile h p \<and>
             fresh_refs h h' (ro_edges out) \<and>
             list_all (fresh_refs h h') (ro_wires out) \<and>
             optimize_rotation mrr (deref_profile h p) = Inr (deref_optimized h' out)"
proof (cases "find_optimal_angle mrr (sample_points (deref h (r_edges p)))")
  case (Inl err)
  then show ?thesis
    by (simp add: optimize_rotation_h_def optimize_rotation_def deref_profile_def)
next
  case (Inr a)
  let ?c = "cos (radians (- a))" and ?s = "sin (radians (- a))"
  let ?G = "\<lambda>e. rotate_edge e ?c ?s"
  let ?E = "r_edges p" and ?W = "r_wires p"
  obtain re e1 where s1: "map_h (new_edge_h ?G) ?E h = (re, h @ e1)"
    and f1: "fresh_refs h (h @ e1) re"
    and d1: "\<And>k. deref (h @ e1 @ k) re = map ?G (deref h ?E)"
    using map_h_spec [OF vE, of ?G] by blast
  have vW1: "list_all (valid_refs (h @ e1)) ?W"
    using vW by (auto simp: list_all_iff intro: valid_append)
  obtain rw e2 where s2: "map_wires_h (new_edge_h ?G) ?W (h @ e1) = (rw, (h @ e1) @ e2)"
    and f2: "list_all (fresh_refs (h @ e1) ((h @ e1) @ e2)) rw"
    and d2: "\<And>k. map (deref ((h @ e1) @ e2 @ k)) rw = map (map ?G) (map (deref (h @ e1)) ?W)"
    using map_wires_h_spec [OF vW1, of ?G] by blast
  let ?h2 = "(h @ e1) @ e2"
  have dW: "map (deref (h @ e1)) ?W = map (deref h) ?W"
    using vW by (auto simp: list_all_iff intro: deref_valid_append)
  have rp: "deref ?h2 re = map ?G (deref h ?E)" using d1 [of e2] by simp
  let ?r = "sample_points (map ?G (deref h ?E))"
  let ?xs = "map fst ?r" and ?ys = "map snd ?r"
  show ?thesis
  proof (cases "?r = []")
    case True
    then show ?thesis
      using Inr s1 s2 rp
      by (simp add: optimize_rotation_h_def optimize_rotation_def deref_profile_def Let_def)
  next
    case False
    then have nx: "?xs \<noteq> []" and ny: "?ys \<noteq> []" by simp_all
    define x0 x1 y0 y1 where "x0 = Min (set ?xs)" and "x1 = Max (set ?xs)"
      and "y0 = Min (set ?ys)" and "y1 = Max (set ?ys)"
    have mm: "py_min ?xs = Inr x0" "py_max ?xs = Inr x1" "py_min ?ys = Inr y0"
      "py_max ?ys = Inr y1"
      unfolding x0_def x1_def y0_def y1_def
      by (rule py_min_ok [OF nx], rule py_max_ok [OF nx], rule py_min_ok [OF ny],
          rule py_max_ok [OF ny])
    let ?T = "\<lambda>e. translate_edge e (- x0) (- y0)"
    have vre: "valid_refs ?h2 re" using fresh_valid [OF f1, of e2] by simp
    obtain te e3 where s3: "map_h (new_edge_h ?T) re ?h2 = (te, ?h2 @ e3)"
      and f3: "fresh_refs ?h2 (?h2 @ e3) te"
      and d3: "\<And>k. deref (?h2 @ e3 @ k) te = map ?T (deref ?h2 re)"
      using map_h_spec [OF vre, of ?T] by blast
    let ?h3 = "?h2 @ e3"
    have vrw: "list_all (valid_refs ?h3) rw"
      using f2 fresh_valid [of "h @ e1" "(h @ e1) @ e2" _ e3] by (auto simp: list_all_iff)
    obtain tw e4 where s4: "map_wires_h (new_edge_h ?T) rw ?h3 = (tw, ?h3 @ e4)"
      and f4: "list_all (fresh_refs ?h3 (?h3 @ e4)) tw"
      and d4: "\<And>k. map (deref (?h3 @ e4 @ k)) tw = map (map ?T) (map (deref ?h3) rw)"
      using map_wires_h_spec [OF vrw, of ?T] by blast
    let ?h4 = "?h3 @ e4"
    let ?out = "\<lparr> ro_edges = te, ro_wires = tw, ro_bbox_w = x1 - x0, ro_bbox_h = y1 - y0,
        ro_rotation_deg = - a, ro_thickness_inches = r_thickness_inches p \<rparr>"
    have run: "optimize_rotation_h mrr p h = Inr (?out, ?h4)"
      using Inr s1 s2 rp mm s3 s4 by (simp add: optimize_rotation_h_def Let_def)
    have pure: "optimize_rotation mrr (deref_profile h p) =
        Inr \<lparr> opt_edges = map ?T (map ?G (deref h ?E)),
              opt_wires = map (map ?T) (map (map ?G) (map (deref h) ?W)),
              bbox_w = x1 - x0, bbox_h = y1 - y0, rotation_deg = - a,
              opt_thickness_inches = r_thickness_inches p \<rparr>"
      using Inr mm by (simp add: optimize_rotation_def deref_profile_def Let_def)
    have de: "deref ?h4 te = map ?T (map ?G (deref h ?E))"
      using d3 [of e4] rp by simp
    have "map (deref ?h3) rw = map (map ?G) (map (deref h) ?W)"
      using d2 [of e3] dW by simp
    then have dw: "map (deref ?h4) tw = map (map ?T) (map (map ?G) (map (deref h) ?W))"
      using d4 [of "[]"] by simp
    have frame: "take (length h) ?h4 = h" by simp
    have same: "deref_profile ?h4 p = deref_profile h p"
    proof -
      have "deref ?h4 ?E = deref h ?E"
        using deref_valid_append [OF vE, of "e1 @ e2 @ e3 @ e4"] by simp
      moreover have "map (deref ?h4) ?W = map (deref h) ?W"
        using vW deref_valid_append [of h _ "e1 @ e2 @ e3 @ e4"]
        by (auto simp: list_all_iff)
      ultimately show ?thesis by (simp add: deref_profile_def)
    qed
    have fe: "fresh_refs h ?h4 te"
      using fresh_append [OF f3, of e4] fresh_prepend [of h "e1 @ e2" ?h4 te] by simp
    have fw: "list_all (fresh_refs h ?h4) tw"
      using f4 fresh_prepend [of h "e1 @ e2 @ e3" ?h4] by (auto simp: list_all_iff)
    show ?thesis
      unfolding run using frame same fe fw pure de dw
      by (simp add: deref_optimized_def)
  qed
qed

lemma line_run:
  "optimize_rotation_h diamond_mrr line_profile_ref line_store =
     Inr (\<lparr> ro_edges = [3], ro_wires = [[4]], ro_bbox_w = 3, ro_bbox_h = 4,
            ro_rotation_deg = 0, ro_thickness_inches = 1 / 8 \<rparr>,
          [Line2D 1 2 4 6, Line2D 1 2 4 6, Line2D 1 2 4 6, Line2D 0 0 3 4, Line2D 0 0 3 4])"
  by (simp add: optimize_rotation_h_def line_profile_ref_def line_store_def
      find_optimal_angle_def sample_points_def deref_def new_edge_h_def alloc_def
      radians_def rotate_point_def Let_def)

theorem optimize_rotation_frame_witness:
  "valid_refs line_store (r_edges line_profile_ref) \<and>
   list_all (valid_refs line_store) (r_wires line_profile_ref) \<and>
   (\<exists>out h'. optimize_rotation_h diamond_mrr line_profile_ref line_store = Inr (out, h') \<and>
      take (length line_store) h' = line_store \<and>
      deref_profile h' line_profile_ref = deref_profile line_store line_profile_ref \<and>
      fresh_refs line_store h' (ro_edges out) \<and>
      list_all (fresh_refs line_store h') (ro_wires out) \<and>
      optimize_rotation diamond_mrr (deref_profile line_store line_profile_ref) =
        Inr (deref_optimized h' out))"
proof -
  have v: "valid_refs line_store (r_edges line_profile_ref)"
    "list_all (valid_refs line_store) (r_wires line_profile_ref)"
    by (simp_all add: valid_refs_def line_store_def line_profile_ref_def)
  from optimize_rotation_frame [OF v, of diamond_mrr] v show ?thesis
    by (simp add: line_run)
qed

section \<open>The DXF tool against the optimizer\<close>















end
